theory Spec2Isabelle
  imports Complex_Main "HOL-Library.AList" "HOL-Library.Sublist"
begin

section \<open>Python strings\<close>

text \<open>
  A Python \<^verbatim>\<open>str\<close> is a sequence of Unicode code points, and \<^verbatim>\<open>len\<close> counts code
  points. A string is therefore a list of code points (natural numbers); \<open>ascii\<close> writes
  an ASCII literal as such a list. Cyrillic literals of the source are written out as code
  point lists, with a transliteration beside them.
\<close>

type_synonym ustr = "nat list"

definition ascii :: "string \<Rightarrow> ustr" where
  "ascii cs = map of_char cs"

text \<open>
  The characters \<^verbatim>\<open>str.strip()\<close> removes and \<^verbatim>\<open>str.isspace()\<close> accepts: U+0009 to U+000D,
  U+001C to U+0020, U+0085, U+00A0, U+1680, U+2000 to U+200A, U+2028, U+2029, U+202F,
  U+205F and U+3000.
\<close>

definition is_space :: "nat \<Rightarrow> bool" where
  "is_space c \<longleftrightarrow>
     (9 \<le> c \<and> c \<le> 13) \<or> (28 \<le> c \<and> c \<le> 32) \<or> c = 133 \<or> c = 160 \<or> c = 5760 \<or>
     (8192 \<le> c \<and> c \<le> 8202) \<or> c = 8232 \<or> c = 8233 \<or> c = 8239 \<or> c = 8287 \<or>
     c = 12288"

text \<open>\<^verbatim>\<open>s.strip(chars)\<close>: the characters of a class are dropped at both ends.\<close>

definition strip_chars :: "(nat \<Rightarrow> bool) \<Rightarrow> ustr \<Rightarrow> ustr" where
  "strip_chars p s = rev (dropWhile p (rev (dropWhile p s)))"

definition py_strip :: "ustr \<Rightarrow> ustr" where
  "py_strip s = strip_chars is_space s"

text \<open>
  \<^verbatim>\<open>s.zfill(width)\<close>: a string of at least \<open>width\<close> characters is returned as it is;
  a shorter one is filled with the digit 0 (code point 48) up to \<open>width\<close>, and the zeros
  go after a leading sign, \<^verbatim>\<open>+\<close> (43) or \<^verbatim>\<open>-\<close> (45), when the string starts with one.
\<close>

definition has_sign :: "ustr \<Rightarrow> bool" where
  "has_sign s = (case s of [] \<Rightarrow> False | c # _ \<Rightarrow> c = 43 \<or> c = 45)"

definition zfill :: "nat \<Rightarrow> ustr \<Rightarrow> ustr" where
  "zfill width s =
     (if width \<le> length s then s
      else if has_sign s then hd s # replicate (width - length s) 48 @ tl s
      else replicate (width - length s) 48 @ s)"

section \<open>normalize\_inn\<close>

text \<open>
  \<^verbatim>\<open>
  def normalize_inn(inn: str) -> str:
      inn = inn.strip()
      if len(inn) < 10:
          return inn.zfill(10)
      elif len(inn) < 12 and len(inn) > 10:
          return inn.zfill(12)
      return inn
  \<close>
\<close>

definition normalize_inn :: "ustr \<Rightarrow> ustr" where
  "normalize_inn inn0 =
     (let inn = py_strip inn0 in
      if length inn < 10 then zfill 10 inn
      else if length inn < 12 \<and> length inn > 10 then zfill 12 inn
      else inn)"

subsection \<open>Stripping and zero filling\<close>

lemma strip_chars_fixed:
  assumes "s = [] \<or> (\<not> p (hd s) \<and> \<not> p (last s))"
  shows "strip_chars p s = s"
proof (cases s)
  case Nil
  then show ?thesis by (simp add: strip_chars_def)
next
  case (Cons c cs)
  with assms have h: "\<not> p (hd s)" and l: "\<not> p (last s)" by auto
  from Cons h have "dropWhile p s = s" by simp
  moreover from l have "dropWhile p (rev s) = rev s"
    by (simp add: dropWhile_eq_self_iff hd_rev)
  ultimately show ?thesis by (simp add: strip_chars_def)
qed

lemma strip_chars_ends:
  "strip_chars p s = [] \<or> (\<not> p (hd (strip_chars p s)) \<and> \<not> p (last (strip_chars p s)))"
proof (cases "strip_chars p s = []")
  case True
  then show ?thesis by simp
next
  case False
  let ?d = "dropWhile p s"
  let ?r = "dropWhile p (rev ?d)"
  from False have r: "?r \<noteq> []" by (simp add: strip_chars_def)
  have d: "?d \<noteq> []"
  proof
    assume "?d = []"
    then have "?r = []" by (simp only: rev.simps(1) dropWhile.simps(1))
    with r show False by simp
  qed
  have "\<not> p (hd ?r)" using r by (rule hd_dropWhile)
  then have l: "\<not> p (last (strip_chars p s))"
    using r by (simp add: strip_chars_def last_rev)
  have hd_d: "\<not> p (hd ?d)" using d by (rule hd_dropWhile)
  from d have "hd ?d \<in> set (rev ?d)" by simp
  then have "last ?r = last (rev ?d)" using hd_d by (rule dropWhile_last)
  then have "hd (strip_chars p s) = hd ?d"
    using r d by (simp add: strip_chars_def hd_rev last_rev)
  with hd_d l show ?thesis by simp
qed

lemma strip_chars_idem: "strip_chars p (strip_chars p s) = strip_chars p s"
  using strip_chars_ends [of p s] by (rule strip_chars_fixed)

lemma length_zfill: "length (zfill w s) = max w (length s)"
  by (cases s) (auto simp: zfill_def has_sign_def)

lemma zfill_ends:
  assumes "s = [] \<or> (\<not> is_space (hd s) \<and> \<not> is_space (last s))"
  shows "zfill w s = [] \<or> (\<not> is_space (hd (zfill w s)) \<and> \<not> is_space (last (zfill w s)))"
proof (cases s)
  case Nil
  then show ?thesis by (cases w) (auto simp: zfill_def has_sign_def is_space_def)
next
  case (Cons c cs)
  with assms have h: "\<not> is_space c" and l: "\<not> is_space (last (c # cs))" by auto
  have z: "\<not> is_space 48" by (simp add: is_space_def)
  show ?thesis
  proof (cases "w \<le> length s")
    case True
    with Cons h l show ?thesis by (simp add: zfill_def)
  next
    case False
    then obtain k where k: "w - length s = Suc k" by (cases "w - length s") auto
    show ?thesis
    proof (cases "has_sign s")
      case True
      with False k have "zfill w s = hd s # replicate (Suc k) 48 @ tl s"
        by (simp add: zfill_def)
      with Cons h l z show ?thesis by (cases "cs = []") simp_all
    next
      case notsign: False
      with False k have "zfill w s = replicate (Suc k) 48 @ s"
        by (simp add: zfill_def)
      with Cons h l z show ?thesis by simp
    qed
  qed
qed

lemma normalize_inn_fixed:
  assumes "s = [] \<or> (\<not> is_space (hd s) \<and> \<not> is_space (last s))"
    and "length s = 10 \<or> 12 \<le> length s"
  shows "normalize_inn s = s"
  using assms strip_chars_fixed [of s is_space]
  by (auto simp: normalize_inn_def py_strip_def Let_def)

lemma replicate_unfold: "0 < n \<Longrightarrow> replicate n x = x # replicate (n - 1) x"
  by (cases n) simp_all

lemmas inn_eval = normalize_inn_def py_strip_def strip_chars_def is_space_def zfill_def
  has_sign_def ascii_def replicate_unfold

subsection \<open>C10: what normalize\_inn returns\<close>

text \<open>
  C10, as the code has it. \<open>normalize_inn\<close> strips surrounding whitespace first. A
  stripped string shorter than 10 characters is zero-filled to length 10 and one of
  exactly 11 characters to length 12 (one zero); a stripped string of length 10, 12 or
  more is returned unchanged. The zeros are put on the left, except that they follow a
  leading \<^verbatim>\<open>+\<close> or \<^verbatim>\<open>-\<close> of the stripped string, as \<^verbatim>\<open>str.zfill\<close> does. \<open>normalize_inn\<close>
  is idempotent.
\<close>

theorem normalize_inn_zero_fill:
  "normalize_inn s =
     (let t = py_strip s;
          pad = (if length t < 10 then 10 - length t else if length t = 11 then 1 else 0)
      in if has_sign t then hd t # replicate pad 48 @ tl t else replicate pad 48 @ t)
   \<and> normalize_inn (normalize_inn s) = normalize_inn s"
proof
  let ?t = "py_strip s"
  show "normalize_inn s =
     (let t = py_strip s;
          pad = (if length t < 10 then 10 - length t else if length t = 11 then 1 else 0)
      in if has_sign t then hd t # replicate pad 48 @ tl t else replicate pad 48 @ t)"
  proof -
    have z: "zfill w t = (if has_sign t then hd t # replicate (w - length t) 48 @ tl t
                          else replicate (w - length t) 48 @ t)" for w t
      by (cases t) (simp_all add: zfill_def has_sign_def)
    consider "length ?t < 10" | "length ?t = 11" | "length ?t = 10 \<or> 12 \<le> length ?t"
      by linarith
    then show ?thesis
    proof cases
      case 1
      then show ?thesis by (simp add: normalize_inn_def Let_def z)
    next
      case 2
      then show ?thesis by (simp add: normalize_inn_def Let_def z)
    next
      case 3
      then have "normalize_inn s = ?t" by (auto simp: normalize_inn_def Let_def)
      moreover have "(if has_sign ?t then hd ?t # replicate 0 48 @ tl ?t else replicate 0 48 @ ?t) = ?t"
        by (cases ?t) (simp_all add: has_sign_def)
      ultimately show ?thesis using 3 by (auto simp: Let_def)
    qed
  qed
next
  let ?t = "py_strip s"
  have e: "?t = [] \<or> (\<not> is_space (hd ?t) \<and> \<not> is_space (last ?t))"
    unfolding py_strip_def by (rule strip_chars_ends)
  show "normalize_inn (normalize_inn s) = normalize_inn s"
  proof (rule normalize_inn_fixed)
    show "normalize_inn s = [] \<or>
      (\<not> is_space (hd (normalize_inn s)) \<and> \<not> is_space (last (normalize_inn s)))"
      using e zfill_ends [OF e] by (auto simp: normalize_inn_def Let_def)
    show "length (normalize_inn s) = 10 \<or> 12 \<le> length (normalize_inn s)"
      by (auto simp: normalize_inn_def Let_def length_zfill)
  qed
qed

text \<open>
  The claim as written says "left-padded with zeros". At the input \<^verbatim>\<open>"-1"\<close> the stripped
  string has 2 characters and the result is \<^verbatim>\<open>"-000000001"\<close>: the zeros follow the sign,
  and the result is not the stripped string with eight zeros in front of it.
\<close>

theorem normalize_inn_left_pad_counterexample:
  "length (py_strip (ascii ''-1'')) < 10 \<and>
   normalize_inn (ascii ''-1'') = ascii ''-000000001'' \<and>
   normalize_inn (ascii ''-1'') \<noteq>
     replicate (10 - length (py_strip (ascii ''-1''))) 48 @ py_strip (ascii ''-1'')"
  by (simp add: inn_eval)

section \<open>Numbers\<close>

text \<open>
  What \<^verbatim>\<open>_clean_number\<close> returns is a Python \<^verbatim>\<open>int\<close> or a \<^verbatim>\<open>float\<close>. An \<^verbatim>\<open>int\<close> is
  unbounded. \<open>PyFloat q\<close> stands for the float that \<^verbatim>\<open>float()\<close> returns for a decimal
  literal of exact value \<open>q\<close>: the double nearest to \<open>q\<close> (an infinity beyond the range
  of doubles). Two literals of the same value give the same float, and \<^verbatim>\<open>-1234.5\<close> is
  \<open>PyFloat (- 1234.5)\<close>.
\<close>

datatype pynum = PyInt int | PyFloat rat

text \<open>
  The exceptions of the model; \<open>OtherError\<close> is an exception raised outside the repository,
  with its message.
\<close>

datatype py_exc =
  ValueError | IndexError | AttributeError | JSONDecodeError | OtherError ustr

definition negate :: "pynum \<Rightarrow> pynum" where
  "negate v = (case v of PyInt i \<Rightarrow> PyInt (- i) | PyFloat q \<Rightarrow> PyFloat (- q))"

text \<open>
  The Unicode decimal digits (category Nd, Unicode 14) come in runs of ten, from the
  digit zero of a script to its digit nine; \<open>nd_zero_digits\<close> lists the zeros.
\<close>

definition nd_zero_digits :: "nat list" where
  "nd_zero_digits =
     [48, 1632, 1776, 1984, 2406, 2534, 2662, 2790, 2918, 3046, 3174, 3302, 3430, 3558,
      3664, 3792, 3872, 4160, 4240, 6112, 6160, 6470, 6608, 6784, 6800, 6992, 7088, 7232,
      7248, 42528, 43216, 43264, 43472, 43504, 43600, 44016, 65296, 66720, 68912, 69734,
      69872, 69942, 70096, 70384, 70736, 70864, 71248, 71360, 71472, 71904, 72016, 72784,
      73040, 73120, 92768, 92864, 93008, 120782, 120792, 120802, 120812, 120822, 123200,
      123632, 125264, 130032]"

definition decimal_value :: "nat \<Rightarrow> nat option" where
  "decimal_value c =
     (case find (\<lambda>z. z \<le> c \<and> c < z + 10) nd_zero_digits of
        None \<Rightarrow> None
      | Some z \<Rightarrow> Some (c - z))"

definition is_ascii_digit :: "nat \<Rightarrow> bool" where
  "is_ascii_digit c \<longleftrightarrow> 48 \<le> c \<and> c \<le> 57"

text \<open>The value of a string of ASCII digits.\<close>

definition dec_value :: "ustr \<Rightarrow> int" where
  "dec_value ds = foldl (\<lambda>v c. 10 * v + (int c - 48)) 0 ds"

text \<open>\<^verbatim>\<open>s.split(sep)\<close> for a separator of one character.\<close>

fun split_char :: "nat \<Rightarrow> ustr \<Rightarrow> ustr list" where
  "split_char sep [] = [[]]"
| "split_char sep (c # cs) =
     (if c = sep then [] # split_char sep cs
      else (case split_char sep cs of
              [] \<Rightarrow> [[c]]
            | g # gs \<Rightarrow> (c # g) # gs))"

text \<open>
  \<^verbatim>\<open>int(s)\<close> for a string, in base 10. Whitespace and decimal digits beyond ASCII are first
  turned into a space and into the ASCII digit of the same value, any other character
  beyond ASCII into \<^verbatim>\<open>?\<close> (63). ASCII whitespace is skipped at both ends; a sign may come
  first; then come digits, in groups separated by single underscores (95). More digits
  than \<^verbatim>\<open>sys.int_info.default_max_str_digits\<close> (4300) raise \<^verbatim>\<open>ValueError\<close>, as every
  malformed string does.
\<close>

definition int_max_str_digits :: nat where
  "int_max_str_digits = 4300"

definition to_ascii_decimal :: "nat \<Rightarrow> nat" where
  "to_ascii_decimal c =
     (if c < 127 then c
      else if is_space c then 32
      else (case decimal_value c of None \<Rightarrow> 63 | Some d \<Rightarrow> 48 + d))"

definition is_ascii_space :: "nat \<Rightarrow> bool" where
  "is_ascii_space c \<longleftrightarrow> (9 \<le> c \<and> c \<le> 13) \<or> c = 32"

definition py_int :: "ustr \<Rightarrow> py_exc + int" where
  "py_int s =
     (let t = dropWhile is_ascii_space (map to_ascii_decimal s);
          neg = (case t of [] \<Rightarrow> False | c # _ \<Rightarrow> c = 45);
          t = (if has_sign t then tl t else t);
          body = rev (dropWhile is_ascii_space (rev t));
          groups = split_char 95 body;
          digits = concat groups
      in if list_all (\<lambda>g. g \<noteq> [] \<and> list_all is_ascii_digit g) groups
            \<and> length digits \<le> int_max_str_digits
         then Inr (if neg then - dec_value digits else dec_value digits)
         else Inl ValueError)"

text \<open>
  \<^verbatim>\<open>float(s)\<close> on the strings that reach it in \<^verbatim>\<open>_clean_number\<close>, which hold no character
  but the digits 0 to 9, the minus sign (45), the comma (44) and the period (46), by
  lemma \<open>clean_token_chars\<close> below: an optional minus sign, then digits with one period
  among them, before them or after them, and at least one digit. Anything else over
  these characters raises \<^verbatim>\<open>ValueError\<close>.
\<close>

definition py_float :: "ustr \<Rightarrow> py_exc + rat" where
  "py_float s =
     (let neg = (case s of [] \<Rightarrow> False | c # _ \<Rightarrow> c = 45);
          t = (if neg then tl s else s);
          a = takeWhile (\<lambda>c. c \<noteq> 46) t;
          b = drop (length a + 1) t
      in if list_all is_ascii_digit a \<and> list_all is_ascii_digit b \<and> a @ b \<noteq> []
         then Inr ((if neg then - 1 else 1) * of_int (dec_value (a @ b)) / 10 ^ length b)
         else Inl ValueError)"

section \<open>The numeric normalizer\<close>

text \<open>
  \<^verbatim>\<open>
  def _clean_number(num_str: str):
      if not num_str:
          return None
      s = str(num_str)
      s = s.replace('\xa0', ' ').replace('\u2009', ' ')
      s = s.strip()
      neg = False
      if re.match(r'^\(.*\)$', s):
          neg = True
          s = s.strip('()')
      s = re.sub(r'[^0-9\-,\. ]+', '', s)
      s = s.replace(' ', '')
      if ',' in s and '.' not in s:
          s = s.replace(',', '.')
      try:
          if s == '':
              return None
          if '.' in s:
              val = float(s)
          else:
              val = int(s)
          return -val if neg else val
      except:
          return None
  \<close>
  \<^verbatim>\<open>re.match(r'^\(.*\)$', s)\<close> succeeds when the string is an opening parenthesis (40),
  characters other than the line feed (10) and a closing parenthesis (41), with at most
  one line feed after it.
\<close>

definition paren_core :: "ustr \<Rightarrow> bool" where
  "paren_core t \<longleftrightarrow> 2 \<le> length t \<and> hd t = 40 \<and> last t = 41 \<and> 10 \<notin> set (butlast (tl t))"

definition re_match_parens :: "ustr \<Rightarrow> bool" where
  "re_match_parens s \<longleftrightarrow> paren_core s \<or> (s \<noteq> [] \<and> last s = 10 \<and> paren_core (butlast s))"

text \<open>The characters that \<^verbatim>\<open>re.sub(r'[^0-9\-,\. ]+', '', s)\<close> keeps.\<close>

definition number_char :: "nat \<Rightarrow> bool" where
  "number_char c \<longleftrightarrow> is_ascii_digit c \<or> c = 45 \<or> c = 44 \<or> c = 46 \<or> c = 32"

definition replace_char :: "nat \<Rightarrow> nat \<Rightarrow> ustr \<Rightarrow> ustr" where
  "replace_char a b s = map (\<lambda>c. if c = a then b else c) s"

text \<open>The statements before the \<^verbatim>\<open>try\<close>: the sign flag and the cleaned token.\<close>

definition clean_token :: "ustr \<Rightarrow> bool \<times> ustr" where
  "clean_token num_str =
     (let s = replace_char 8201 32 (replace_char 160 32 num_str);
          s = py_strip s;
          neg = re_match_parens s;
          s = (if neg then strip_chars (\<lambda>c. c = 40 \<or> c = 41) s else s);
          s = filter number_char s;
          s = filter (\<lambda>c. c \<noteq> 32) s;
          s = (if 44 \<in> set s \<and> 46 \<notin> set s then replace_char 44 46 s else s)
      in (neg, s))"

text \<open>The body of the \<^verbatim>\<open>try\<close>, where \<^verbatim>\<open>int\<close> and \<^verbatim>\<open>float\<close> may raise.\<close>

definition parse_token :: "bool \<times> ustr \<Rightarrow> py_exc + pynum option" where
  "parse_token p =
     (case p of (neg, s) \<Rightarrow>
        if s = [] then Inr None
        else (case (if 46 \<in> set s then map_sum id PyFloat (py_float s)
                    else map_sum id PyInt (py_int s)) of
                Inl e \<Rightarrow> Inl e
              | Inr val \<Rightarrow> Inr (Some (if neg then negate val else val))))"

text \<open>
  The function: \<open>Inr\<close> is a returned value (\<open>None\<close> for Python's \<^verbatim>\<open>None\<close>), \<open>Inl\<close> would
  be an exception that leaves the function. The bare \<^verbatim>\<open>except\<close> turns every exception of
  the guarded block into \<^verbatim>\<open>None\<close>.
\<close>

definition clean_number :: "ustr \<Rightarrow> py_exc + pynum option" where
  "clean_number num_str =
     (if num_str = [] then Inr None
      else (case parse_token (clean_token num_str) of
              Inl e \<Rightarrow> Inr None
            | Inr r \<Rightarrow> Inr r))"

lemmas num_eval = clean_number_def parse_token_def clean_token_def replace_char_def
  number_char_def re_match_parens_def paren_core_def py_float_def py_int_def
  is_ascii_space_def to_ascii_decimal_def int_max_str_digits_def dec_value_def
  is_ascii_digit_def negate_def py_strip_def strip_chars_def is_space_def has_sign_def
  ascii_def Let_def

lemma clean_token_chars:
  "list_all (\<lambda>c. is_ascii_digit c \<or> c = 45 \<or> c = 44 \<or> c = 46) (snd (clean_token s))"
  by (auto simp: clean_token_def Let_def replace_char_def number_char_def list_all_iff)

subsection \<open>C5: the normalizer is total\<close>

text \<open>
  C5. \<^verbatim>\<open>_clean_number\<close> returns for every string: no exception leaves it, and what it
  returns is a number or \<^verbatim>\<open>None\<close>. \<^verbatim>\<open>_clean_number("(1 234,5)")\<close> is the float -1234.5,
  and \<^verbatim>\<open>_clean_number("")\<close> and \<^verbatim>\<open>_clean_number("abc")\<close> are \<^verbatim>\<open>None\<close>.
\<close>

theorem clean_number_total:
  "(\<exists>r. clean_number s = Inr r) \<and>
   clean_number (ascii ''(1 234,5)'') = Inr (Some (PyFloat (- 1234.5))) \<and>
   clean_number (ascii '''') = Inr None \<and>
   clean_number (ascii ''abc'') = Inr None"
proof (intro conjI)
  show "\<exists>r. clean_number s = Inr r"
    by (cases "parse_token (clean_token s)") (simp_all add: clean_number_def)
  show "clean_number (ascii ''(1 234,5)'') = Inr (Some (PyFloat (- 1234.5)))"
    by (simp add: num_eval)
  show "clean_number (ascii '''') = Inr None"
    by (simp add: num_eval)
  show "clean_number (ascii ''abc'') = Inr None"
    by (simp add: num_eval)
qed

section \<open>Records of the pipeline\<close>

text \<open>
  Every extraction function of the source returns a dictionary with the keys \<^verbatim>\<open>success\<close>,
  \<^verbatim>\<open>report_type\<close>, \<^verbatim>\<open>report_year\<close>, \<^verbatim>\<open>multi_year_data\<close> and \<^verbatim>\<open>error\<close>, some of
  them absent; an absent key and the value \<^verbatim>\<open>None\<close> are both \<open>None\<close> here, since the
  source reads these keys with \<^verbatim>\<open>dict.get\<close> only. The keys \<^verbatim>\<open>filename\<close>, \<^verbatim>\<open>text\<close>,
  \<^verbatim>\<open>company_info\<close>, \<^verbatim>\<open>report_date\<close> and \<^verbatim>\<open>structured_data\<close> (the pair of \<^verbatim>\<open>balance\<close>
  and \<^verbatim>\<open>financial_results\<close> again) play no part in what is proved and are left out.

  A cell of a value sequence is \<^verbatim>\<open>None\<close>, a number or a string.
\<close>

datatype cell = CNone | CNum pynum | CStr ustr

text \<open>
  The value of \<^verbatim>\<open>error\<close>: a fixed message of the source, the text \<^verbatim>\<open>str(e)\<close> of an
  exception, a fixed prefix followed by \<^verbatim>\<open>str(e)\<close>, or a fixed prefix followed by the
  first bytes of the file as Python prints them.
\<close>

datatype diagnostic = Msg ustr | ExcText py_exc | MsgExc ustr py_exc | MsgHeader ustr

text \<open>
  \<^verbatim>\<open>multi_year_data\<close> as the local extractors build it: the year labels, and two
  dictionaries from a line-item label to its value sequence, in insertion order.
\<close>

record multi_year =
  years :: "cell list"
  my_balance :: "(ustr \<times> cell list) list"
  my_financial_results :: "(ustr \<times> cell list) list"

record ('v, 'm) extraction =
  success :: bool
  report_type :: "'v option"
  report_year :: "'v option"
  multi_year_data :: "'m option"
  error :: "diagnostic option"

text \<open>\<^verbatim>\<open>d[k] = v\<close> on a dictionary kept in insertion order, and a run of such assignments.\<close>

definition dict_of :: "('k \<times> 'v) list \<Rightarrow> ('k \<times> 'v) list" where
  "dict_of kvs = foldl (\<lambda>d kv. AList.update (fst kv) (snd kv) d) [] kvs"

section \<open>The structured-schema extractor\<close>

subsection \<open>Element trees\<close>

text \<open>
  What \<^verbatim>\<open>ET.fromstring\<close> returns: an element has a tag, attributes, a text and children.
  \<^verbatim>\<open>e.find('.//T')\<close> is the first element with tag \<open>T\<close> among the descendants of \<open>e\<close> in
  document order (\<open>e\<close> itself is not among them), or \<^verbatim>\<open>None\<close>; \<^verbatim>\<open>e.get(k)\<close> is the value
  of the attribute \<open>k\<close>, or \<^verbatim>\<open>None\<close>.
\<close>

datatype element =
  Element (tag: ustr) (attrib: "(ustr \<times> ustr) list") (elem_text: "ustr option")
    (children: "element list")

fun descendants :: "element \<Rightarrow> element list" where
  "descendants (Element t a x cs) = concat (map (\<lambda>c. c # descendants c) cs)"

definition find_tag :: "element \<Rightarrow> ustr \<Rightarrow> element option" where
  "find_tag e t = find (\<lambda>d. tag d = t) (descendants e)"

definition get_attr :: "element \<Rightarrow> ustr \<Rightarrow> ustr option" where
  "get_attr e k = map_of (attrib e) k"

subsection \<open>Tags, attributes and labels\<close>

definition tag_Dokument :: ustr where \<comment> \<open>tag \<^verbatim>\<open>Dokument\<close>\<close>
  "tag_Dokument = [1044, 1086, 1082, 1091, 1084, 1077, 1085, 1090]"

definition tag_Balans :: ustr where \<comment> \<open>tag \<^verbatim>\<open>Balans\<close>\<close>
  "tag_Balans = [1041, 1072, 1083, 1072, 1085, 1089]"

definition tag_Aktiv :: ustr where \<comment> \<open>tag \<^verbatim>\<open>Aktiv\<close>\<close>
  "tag_Aktiv = [1040, 1082, 1090, 1080, 1074]"

definition tag_MatVneAkt :: ustr where \<comment> \<open>tag \<^verbatim>\<open>MatVneAkt\<close>\<close>
  "tag_MatVneAkt = [1052, 1072, 1090, 1042, 1085, 1077, 1040, 1082, 1090]"

definition tag_FinVlozh :: ustr where \<comment> \<open>tag \<^verbatim>\<open>FinVlozh\<close>\<close>
  "tag_FinVlozh = [1060, 1080, 1085, 1042, 1083, 1086, 1078]"

definition tag_Zapasy :: ustr where \<comment> \<open>tag \<^verbatim>\<open>Zapasy\<close>\<close>
  "tag_Zapasy = [1047, 1072, 1087, 1072, 1089, 1099]"

definition tag_DenezhnSr :: ustr where \<comment> \<open>tag \<^verbatim>\<open>DenezhnSr\<close>\<close>
  "tag_DenezhnSr = [1044, 1077, 1085, 1077, 1078, 1085, 1057, 1088]"

definition tag_NeMatFinAkt :: ustr where \<comment> \<open>tag \<^verbatim>\<open>NeMatFinAkt\<close>\<close>
  "tag_NeMatFinAkt = [1053, 1077, 1052, 1072, 1090, 1060, 1080, 1085, 1040, 1082, 1090]"

definition tag_Passiv :: ustr where \<comment> \<open>tag \<^verbatim>\<open>Passiv\<close>\<close>
  "tag_Passiv = [1055, 1072, 1089, 1089, 1080, 1074]"

definition tag_KapRez :: ustr where \<comment> \<open>tag \<^verbatim>\<open>KapRez\<close>\<close>
  "tag_KapRez = [1050, 1072, 1087, 1056, 1077, 1079]"

definition tag_DlgZaemSredstv :: ustr where \<comment> \<open>tag \<^verbatim>\<open>DlgZaemSredstv\<close>\<close>
  "tag_DlgZaemSredstv =
     [1044, 1083, 1075, 1047, 1072, 1077, 1084, 1057, 1088, 1077, 1076, 1089, 1090,
      1074]"

definition tag_DrDolgosrObyaz :: ustr where \<comment> \<open>tag \<^verbatim>\<open>DrDolgosrObyaz\<close>\<close>
  "tag_DrDolgosrObyaz =
     [1044, 1088, 1044, 1086, 1083, 1075, 1086, 1089, 1088, 1054, 1073, 1103, 1079]"

definition tag_KreditZadolzh :: ustr where \<comment> \<open>tag \<^verbatim>\<open>KreditZadolzh\<close>\<close>
  "tag_KreditZadolzh = [1050, 1088, 1077, 1076, 1080, 1090, 1047, 1072, 1076, 1086, 1083, 1078]"

definition tag_FinRez :: ustr where \<comment> \<open>tag \<^verbatim>\<open>FinRez\<close>\<close>
  "tag_FinRez = [1060, 1080, 1085, 1056, 1077, 1079]"

definition tag_Vyruch :: ustr where \<comment> \<open>tag \<^verbatim>\<open>Vyruch\<close>\<close>
  "tag_Vyruch = [1042, 1099, 1088, 1091, 1095]"

definition tag_RaskhObDeyat :: ustr where \<comment> \<open>tag \<^verbatim>\<open>RaskhObDeyat\<close>\<close>
  "tag_RaskhObDeyat = [1056, 1072, 1089, 1093, 1054, 1073, 1044, 1077, 1103, 1090]"

definition tag_ProchDokhod :: ustr where \<comment> \<open>tag \<^verbatim>\<open>ProchDokhod\<close>\<close>
  "tag_ProchDokhod = [1055, 1088, 1086, 1095, 1044, 1086, 1093, 1086, 1076]"

definition tag_ProchRaskhod :: ustr where \<comment> \<open>tag \<^verbatim>\<open>ProchRaskhod\<close>\<close>
  "tag_ProchRaskhod = [1055, 1088, 1086, 1095, 1056, 1072, 1089, 1093, 1086, 1076]"

definition tag_NalPribDokh :: ustr where \<comment> \<open>tag \<^verbatim>\<open>NalPribDokh\<close>\<close>
  "tag_NalPribDokh = [1053, 1072, 1083, 1055, 1088, 1080, 1073, 1044, 1086, 1093]"

definition tag_ChistPribUb :: ustr where \<comment> \<open>tag \<^verbatim>\<open>ChistPribUb\<close>\<close>
  "tag_ChistPribUb = [1063, 1080, 1089, 1090, 1055, 1088, 1080, 1073, 1059, 1073]"

definition attr_OtchetGod :: ustr where \<comment> \<open>attribute \<^verbatim>\<open>OtchetGod\<close>\<close>
  "attr_OtchetGod = [1054, 1090, 1095, 1077, 1090, 1043, 1086, 1076]"

definition attr_KND :: ustr where \<comment> \<open>attribute \<^verbatim>\<open>KND\<close>\<close>
  "attr_KND = [1050, 1053, 1044]"

definition attr_SumOtch :: ustr where \<comment> \<open>attribute \<^verbatim>\<open>SumOtch\<close>\<close>
  "attr_SumOtch = [1057, 1091, 1084, 1054, 1090, 1095]"

definition attr_SumPrdShv :: ustr where \<comment> \<open>attribute \<^verbatim>\<open>SumPrdShv\<close>\<close>
  "attr_SumPrdShv = [1057, 1091, 1084, 1055, 1088, 1076, 1064, 1074]"

definition attr_SumPrdShch :: ustr where \<comment> \<open>attribute \<^verbatim>\<open>SumPrdShch\<close>\<close>
  "attr_SumPrdShch = [1057, 1091, 1084, 1055, 1088, 1076, 1065]"

definition attr_SumPred :: ustr where \<comment> \<open>attribute \<^verbatim>\<open>SumPred\<close>\<close>
  "attr_SumPred = [1057, 1091, 1084, 1055, 1088, 1077, 1076]"

definition rt_simplified :: ustr where \<comment> \<open>report type \<^verbatim>\<open>Uproshchennaya forma\<close>\<close>
  "rt_simplified =
     [1059, 1087, 1088, 1086, 1097, 1077, 1085, 1085, 1072, 1103, 32, 1092, 1086, 1088,
      1084, 1072]"

definition rt_balance :: ustr where \<comment> \<open>report type \<^verbatim>\<open>Bukhgalterskiy balans\<close>\<close>
  "rt_balance =
     [1041, 1091, 1093, 1075, 1072, 1083, 1090, 1077, 1088, 1089, 1082, 1080, 1081, 32,
      1073, 1072, 1083, 1072, 1085, 1089]"

definition rt_results :: ustr where \<comment> \<open>report type \<^verbatim>\<open>Otchet o finansovykh rezultatakh\<close>\<close>
  "rt_results =
     [1054, 1090, 1095, 1077, 1090, 32, 1086, 32, 1092, 1080, 1085, 1072, 1085, 1089,
      1086, 1074, 1099, 1093, 32, 1088, 1077, 1079, 1091, 1083, 1100, 1090, 1072, 1090,
      1072, 1093]"

definition lbl_aktiv_total :: ustr where \<comment> \<open>label \<^verbatim>\<open>AKTIV (vsego)\<close>\<close>
  "lbl_aktiv_total = [1040, 1050, 1058, 1048, 1042, 32, 40, 1074, 1089, 1077, 1075, 1086, 41]"

definition lbl_non_current_assets :: ustr where \<comment> \<open>label \<^verbatim>\<open>Vneoborotnye aktivy\<close>\<close>
  "lbl_non_current_assets =
     [1042, 1085, 1077, 1086, 1073, 1086, 1088, 1086, 1090, 1085, 1099, 1077, 32, 1072,
      1082, 1090, 1080, 1074, 1099]"

definition lbl_financial_investments :: ustr where \<comment> \<open>label \<^verbatim>\<open>Finansovye vlozheniya\<close>\<close>
  "lbl_financial_investments =
     [1060, 1080, 1085, 1072, 1085, 1089, 1086, 1074, 1099, 1077, 32, 1074, 1083, 1086,
      1078, 1077, 1085, 1080, 1103]"

definition lbl_inventory :: ustr where \<comment> \<open>label \<^verbatim>\<open>Zapasy\<close>\<close>
  "lbl_inventory = [1047, 1072, 1087, 1072, 1089, 1099]"

definition lbl_cash :: ustr where \<comment> \<open>label \<^verbatim>\<open>Denezhnye sredstva\<close>\<close>
  "lbl_cash =
     [1044, 1077, 1085, 1077, 1078, 1085, 1099, 1077, 32, 1089, 1088, 1077, 1076, 1089,
      1090, 1074, 1072]"

definition lbl_intangible_assets :: ustr where \<comment> \<open>label \<^verbatim>\<open>Nematerialnye aktivy\<close>\<close>
  "lbl_intangible_assets =
     [1053, 1077, 1084, 1072, 1090, 1077, 1088, 1080, 1072, 1083, 1100, 1085, 1099,
      1077, 32, 1072, 1082, 1090, 1080, 1074, 1099]"

definition lbl_passiv_total :: ustr where \<comment> \<open>label \<^verbatim>\<open>PASSIV (vsego)\<close>\<close>
  "lbl_passiv_total =
     [1055, 1040, 1057, 1057, 1048, 1042, 32, 40, 1074, 1089, 1077, 1075, 1086, 41]"

definition lbl_equity :: ustr where \<comment> \<open>label \<^verbatim>\<open>Kapital i rezervy\<close>\<close>
  "lbl_equity =
     [1050, 1072, 1087, 1080, 1090, 1072, 1083, 32, 1080, 32, 1088, 1077, 1079, 1077,
      1088, 1074, 1099]"

definition lbl_long_term_debt :: ustr where \<comment> \<open>label \<^verbatim>\<open>Dolgosrochnye zaemnye sredstva\<close>\<close>
  "lbl_long_term_debt =
     [1044, 1086, 1083, 1075, 1086, 1089, 1088, 1086, 1095, 1085, 1099, 1077, 32, 1079,
      1072, 1077, 1084, 1085, 1099, 1077, 32, 1089, 1088, 1077, 1076, 1089, 1090, 1074,
      1072]"

definition lbl_other_long_term_liab :: ustr where \<comment> \<open>label \<^verbatim>\<open>Drugie dolgosrochnye obyazatelstva\<close>\<close>
  "lbl_other_long_term_liab =
     [1044, 1088, 1091, 1075, 1080, 1077, 32, 1076, 1086, 1083, 1075, 1086, 1089, 1088,
      1086, 1095, 1085, 1099, 1077, 32, 1086, 1073, 1103, 1079, 1072, 1090, 1077, 1083,
      1100, 1089, 1090, 1074, 1072]"

definition lbl_accounts_payable :: ustr where \<comment> \<open>label \<^verbatim>\<open>Kreditorskaya zadolzhennost\<close>\<close>
  "lbl_accounts_payable =
     [1050, 1088, 1077, 1076, 1080, 1090, 1086, 1088, 1089, 1082, 1072, 1103, 32, 1079,
      1072, 1076, 1086, 1083, 1078, 1077, 1085, 1085, 1086, 1089, 1090, 1100]"

definition lbl_revenue :: ustr where \<comment> \<open>label \<^verbatim>\<open>Vyruchka\<close>\<close>
  "lbl_revenue = [1042, 1099, 1088, 1091, 1095, 1082, 1072]"

definition lbl_expenses_ordinary :: ustr where \<comment> \<open>label \<^verbatim>\<open>Raskhody po obychnoy deyatelnosti\<close>\<close>
  "lbl_expenses_ordinary =
     [1056, 1072, 1089, 1093, 1086, 1076, 1099, 32, 1087, 1086, 32, 1086, 1073, 1099,
      1095, 1085, 1086, 1081, 32, 1076, 1077, 1103, 1090, 1077, 1083, 1100, 1085, 1086,
      1089, 1090, 1080]"

definition lbl_other_income :: ustr where \<comment> \<open>label \<^verbatim>\<open>Prochie dokhody\<close>\<close>
  "lbl_other_income =
     [1055, 1088, 1086, 1095, 1080, 1077, 32, 1076, 1086, 1093, 1086, 1076, 1099]"

definition lbl_other_expenses :: ustr where \<comment> \<open>label \<^verbatim>\<open>Prochie raskhody\<close>\<close>
  "lbl_other_expenses =
     [1055, 1088, 1086, 1095, 1080, 1077, 32, 1088, 1072, 1089, 1093, 1086, 1076, 1099]"

definition lbl_income_tax :: ustr where \<comment> \<open>label \<^verbatim>\<open>Nalog na pribyl\<close>\<close>
  "lbl_income_tax =
     [1053, 1072, 1083, 1086, 1075, 32, 1085, 1072, 32, 1087, 1088, 1080, 1073, 1099,
      1083, 1100]"

definition lbl_net_profit :: ustr where \<comment> \<open>label \<^verbatim>\<open>Chistaya pribyl (ubytok)\<close>\<close>
  "lbl_net_profit =
     [1063, 1080, 1089, 1090, 1072, 1103, 32, 1087, 1088, 1080, 1073, 1099, 1083, 1100,
      32, 40, 1091, 1073, 1099, 1090, 1086, 1082, 41]"


subsection \<open>The intermediate dictionaries\<close>

text \<open>
  \<^verbatim>\<open>result["balance"]\<close> has the keys \<^verbatim>\<open>active\<close> and \<^verbatim>\<open>passive\<close> (\<open>active_part\<close> and
  \<open>passive_part\<close> here), each present when the element is. A side holds three totals and \<^verbatim>\<open>details\<close>, a dictionary from an item key to
  the triple \<^verbatim>\<open>{"current", "prev_year", "prev_2years"}\<close>. \<^verbatim>\<open>result["financial_results"]\<close>
  maps an item key to the pair \<^verbatim>\<open>{"current", "previous"}\<close>, whose first field is
  \<open>current_period\<close> here. Every value is what \<^verbatim>\<open>e.get\<close> returned: the attribute's string,
  or \<^verbatim>\<open>None\<close>.
\<close>

record triple =
  current :: "ustr option"
  prev_year :: "ustr option"
  prev_2years :: "ustr option"

record side =
  total_current :: "ustr option"
  total_prev_year :: "ustr option"
  total_prev_2years :: "ustr option"
  details :: "(string \<times> triple) list"

record balance_sheet =
  active_part :: "side option"
  passive_part :: "side option"

record pair =
  current_period :: "ustr option"
  previous :: "ustr option"

record xml_result = "(ustr, multi_year) extraction" +
  balance :: balance_sheet
  financial_results :: "(string \<times> pair) list"

definition triple_of :: "element \<Rightarrow> triple" where
  "triple_of e =
     \<lparr>current = get_attr e attr_SumOtch,
      prev_year = get_attr e attr_SumPrdShv,
      prev_2years = get_attr e attr_SumPrdShch\<rparr>"

definition pair_of :: "element \<Rightarrow> pair" where
  "pair_of e = \<lparr>current_period = get_attr e attr_SumOtch, previous = get_attr e attr_SumPred\<rparr>"

text \<open>\<^verbatim>\<open>x = e.find(...); if x is not None: d[k] = f(x)\<close>\<close>

definition entry :: "string \<Rightarrow> element option \<Rightarrow> (element \<Rightarrow> 'a) \<Rightarrow> (string \<times> 'a) list" where
  "entry k x f = (case x of None \<Rightarrow> [] | Some e \<Rightarrow> [(k, f e)])"

definition active_side :: "element \<Rightarrow> side" where
  "active_side a =
     \<lparr>total_current = get_attr a attr_SumOtch,
      total_prev_year = get_attr a attr_SumPrdShv,
      total_prev_2years = get_attr a attr_SumPrdShch,
      details = dict_of
        (entry ''non_current_assets'' (find_tag a tag_MatVneAkt) triple_of @
         entry ''financial_investments'' (find_tag a tag_FinVlozh) triple_of @
         entry ''inventory'' (find_tag a tag_Zapasy) triple_of @
         entry ''cash'' (find_tag a tag_DenezhnSr) triple_of @
         entry ''intangible_assets'' (find_tag a tag_NeMatFinAkt) triple_of)\<rparr>"

definition passive_side :: "element \<Rightarrow> side" where
  "passive_side p =
     \<lparr>total_current = get_attr p attr_SumOtch,
      total_prev_year = get_attr p attr_SumPrdShv,
      total_prev_2years = get_attr p attr_SumPrdShch,
      details = dict_of
        (entry ''equity'' (find_tag p tag_KapRez) triple_of @
         entry ''long_term_debt'' (find_tag p tag_DlgZaemSredstv) triple_of @
         entry ''other_long_term_liab'' (find_tag p tag_DrDolgosrObyaz) triple_of @
         entry ''accounts_payable'' (find_tag p tag_KreditZadolzh) triple_of)\<rparr>"

definition balance_of :: "element \<Rightarrow> balance_sheet" where
  "balance_of doc =
     (case find_tag doc tag_Balans of
        None \<Rightarrow> \<lparr>active_part = None, passive_part = None\<rparr>
      | Some b \<Rightarrow>
          \<lparr>active_part = map_option active_side (find_tag b tag_Aktiv),
           passive_part = map_option passive_side (find_tag b tag_Passiv)\<rparr>)"

definition results_of :: "element \<Rightarrow> (string \<times> pair) list" where
  "results_of doc =
     (case find_tag doc tag_FinRez of
        None \<Rightarrow> []
      | Some f \<Rightarrow> dict_of
          (entry ''revenue'' (find_tag f tag_Vyruch) pair_of @
           entry ''expenses'' (find_tag f tag_RaskhObDeyat) pair_of @
           entry ''other_income'' (find_tag f tag_ProchDokhod) pair_of @
           entry ''other_expenses'' (find_tag f tag_ProchRaskhod) pair_of @
           entry ''income_tax'' (find_tag f tag_NalPribDokh) pair_of @
           entry ''net_profit'' (find_tag f tag_ChistPribUb) pair_of))"

text \<open>
  \<^verbatim>\<open>report_type\<close>: the simplified form by the code \<^verbatim>\<open>KND\<close>, replaced by the balance
  sheet's name when there is a balance block; the name of the income statement is then
  taken when nothing is set, and appended after \<^verbatim>\<open>" + "\<close> otherwise.
\<close>

definition report_type_of :: "element \<Rightarrow> ustr option" where
  "report_type_of doc =
     (let rt = (if get_attr doc attr_KND = Some (ascii ''0710096'')
                then Some rt_simplified else None);
          rt = (if find_tag doc tag_Balans \<noteq> None then Some rt_balance else rt)
      in if find_tag doc tag_FinRez \<noteq> None
         then (case rt of
                 None \<Rightarrow> Some rt_results
               | Some t \<Rightarrow> if t = [] then Some rt_results
                           else Some (t @ ascii '' + '' @ rt_results))
         else rt)"

subsection \<open>The table over the years\<close>

text \<open>\<^verbatim>\<open>str(n)\<close> for an integer, which raises beyond 4300 digits as \<^verbatim>\<open>int(s)\<close> does.\<close>

fun nat_digits :: "nat \<Rightarrow> ustr" where
  "nat_digits n = (if n < 10 then [48 + n] else nat_digits (n div 10) @ [48 + n mod 10])"

declare nat_digits.simps [simp del]

definition int_str :: "int \<Rightarrow> ustr" where
  "int_str n = (if n < 0 then [45] else []) @ nat_digits (nat \<bar>n\<bar>)"

definition str_fits :: "int \<Rightarrow> bool" where
  "str_fits n \<longleftrightarrow> length (nat_digits (nat \<bar>n\<bar>)) \<le> int_max_str_digits"

definition py_str :: "int \<Rightarrow> py_exc + ustr" where
  "py_str n = (if str_fits n then Inr (int_str n) else Inl ValueError)"

text \<open>
  \<^verbatim>\<open>
  if result["report_year"]:
      try:
          year_current = int(result["report_year"])
          year_prev = year_current - 1
          year_prev2 = year_current - 2
          multi_year["years"] = [str(year_current), str(year_prev), str(year_prev2)]
      except:
          multi_year["years"] = [result["report_year"], "N/A", "N/A"]
  \<close>
  \<open>year_labels\<close> is the body of the \<^verbatim>\<open>try\<close>.
\<close>

definition year_labels :: "ustr \<Rightarrow> py_exc + cell list" where
  "year_labels s =
     (case py_int s of
        Inl e \<Rightarrow> Inl e
      | Inr y \<Rightarrow>
          (case py_str y of
             Inl e \<Rightarrow> Inl e
           | Inr a \<Rightarrow>
               (case py_str (y - 1) of
                  Inl e \<Rightarrow> Inl e
                | Inr b \<Rightarrow>
                    (case py_str (y - 2) of
                       Inl e \<Rightarrow> Inl e
                     | Inr c \<Rightarrow> Inr [CStr a, CStr b, CStr c]))))"

definition years_of :: "ustr option \<Rightarrow> cell list" where
  "years_of ry =
     (case ry of
        None \<Rightarrow> []
      | Some s \<Rightarrow>
          if s = [] then []
          else (case year_labels s of
                  Inr ys \<Rightarrow> ys
                | Inl e \<Rightarrow> [CStr s, CStr (ascii ''N/A''), CStr (ascii ''N/A'')]))"

definition cell_of :: "ustr option \<Rightarrow> cell" where
  "cell_of v = (case v of None \<Rightarrow> CNone | Some s \<Rightarrow> CStr s)"

definition triple_cells :: "triple \<Rightarrow> cell list" where
  "triple_cells t = [cell_of (current t), cell_of (prev_year t), cell_of (prev_2years t)]"

definition pair_cells :: "pair \<Rightarrow> cell list" where
  "pair_cells p = [cell_of (current_period p), cell_of (previous p)]"

text \<open>\<^verbatim>\<open>if k in d: x = d[k]; multi_year[...][label] = [...]\<close>\<close>

definition line :: "ustr \<Rightarrow> string \<Rightarrow> (string \<times> 'a) list \<Rightarrow> ('a \<Rightarrow> cell list) \<Rightarrow> (ustr \<times> cell list) list" where
  "line label k d f = (case map_of d k of None \<Rightarrow> [] | Some x \<Rightarrow> [(label, f x)])"

definition side_total :: "side \<Rightarrow> cell list" where
  "side_total s =
     [cell_of (total_current s), cell_of (total_prev_year s), cell_of (total_prev_2years s)]"

definition multi_balance :: "balance_sheet \<Rightarrow> (ustr \<times> cell list) list" where
  "multi_balance b = dict_of
     ((case active_part b of
         None \<Rightarrow> []
       | Some a \<Rightarrow>
           (lbl_aktiv_total, side_total a) #
           line lbl_non_current_assets ''non_current_assets'' (details a) triple_cells @
           line lbl_financial_investments ''financial_investments'' (details a) triple_cells @
           line lbl_inventory ''inventory'' (details a) triple_cells @
           line lbl_cash ''cash'' (details a) triple_cells @
           line lbl_intangible_assets ''intangible_assets'' (details a) triple_cells) @
      (case passive_part b of
         None \<Rightarrow> []
       | Some p \<Rightarrow>
           (lbl_passiv_total, side_total p) #
           line lbl_equity ''equity'' (details p) triple_cells @
           line lbl_long_term_debt ''long_term_debt'' (details p) triple_cells @
           line lbl_other_long_term_liab ''other_long_term_liab'' (details p) triple_cells @
           line lbl_accounts_payable ''accounts_payable'' (details p) triple_cells))"

definition multi_results :: "(string \<times> pair) list \<Rightarrow> (ustr \<times> cell list) list" where
  "multi_results fr = dict_of
     (line lbl_revenue ''revenue'' fr pair_cells @
      line lbl_expenses_ordinary ''expenses'' fr pair_cells @
      line lbl_other_income ''other_income'' fr pair_cells @
      line lbl_other_expenses ''other_expenses'' fr pair_cells @
      line lbl_income_tax ''income_tax'' fr pair_cells @
      line lbl_net_profit ''net_profit'' fr pair_cells)"

subsection \<open>parse\_accounting\_xml\<close>

text \<open>
  The argument is what reading the file in the encoding windows-1251 and \<^verbatim>\<open>ET.fromstring\<close>
  give: the root element, or the exception one of them raised. Nothing else in the body
  raises outside the \<^verbatim>\<open>try\<close> of the years; on an exception the function returns its
  initial dictionary with \<^verbatim>\<open>error\<close> set, and \<^verbatim>\<open>multi_year_data\<close> stays absent.
\<close>

definition parse_accounting_xml :: "py_exc + element \<Rightarrow> xml_result" where
  "parse_accounting_xml src =
     (case src of
        Inl e \<Rightarrow>
          \<lparr>success = False, report_type = None, report_year = None,
           multi_year_data = None, error = Some (ExcText e),
           balance = \<lparr>active_part = None, passive_part = None\<rparr>, financial_results = []\<rparr>
      | Inr tree \<Rightarrow>
          (let doc = find_tag tree tag_Dokument;
               ry = (case doc of None \<Rightarrow> None | Some d \<Rightarrow> get_attr d attr_OtchetGod);
               rt = (case doc of None \<Rightarrow> None | Some d \<Rightarrow> report_type_of d);
               b = (case doc of None \<Rightarrow> \<lparr>active_part = None, passive_part = None\<rparr> | Some d \<Rightarrow> balance_of d);
               fr = (case doc of None \<Rightarrow> [] | Some d \<Rightarrow> results_of d)
           in \<lparr>success = True, report_type = rt, report_year = ry,
               multi_year_data =
                 Some \<lparr>years = years_of ry, my_balance = multi_balance b,
                       my_financial_results = multi_results fr\<rparr>,
               error = None, balance = b, financial_results = fr\<rparr>))"

subsection \<open>The shape of the table\<close>




lemma dict_of_Nil: "dict_of [] = []"
  by (simp add: dict_of_def)




lemma multi_results_Nil: "multi_results [] = []"
  by (simp add: multi_results_def line_def dict_of_def)



text \<open>\<^verbatim>\<open>str(n)\<close> raises for no integer of at most 4300 digits.\<close>

lemma length_nat_digits: "0 < k \<Longrightarrow> n < 10 ^ k \<Longrightarrow> length (nat_digits n) \<le> k"
proof (induction k arbitrary: n)
  case 0
  then show ?case by simp
next
  case (Suc k)
  show ?case
  proof (cases "n < 10")
    case True
    then show ?thesis by (simp add: nat_digits.simps [of n])
  next
    case False
    with Suc.prems have k: "0 < k" by (cases k) auto
    from Suc.prems have "n div 10 < 10 ^ k" by (simp add: less_mult_imp_div_less mult.commute)
    with k have "length (nat_digits (n div 10)) \<le> k" by (rule Suc.IH)
    with False show ?thesis by (simp add: nat_digits.simps [of n])
  qed
qed

lemma str_fits_small: "\<bar>n\<bar> < 10 ^ int_max_str_digits \<Longrightarrow> str_fits n"
proof -
  assume "\<bar>n\<bar> < 10 ^ int_max_str_digits"
  then have "nat \<bar>n\<bar> < 10 ^ int_max_str_digits" by (simp add: nat_less_iff)
  moreover have "0 < int_max_str_digits" by (simp add: int_max_str_digits_def)
  ultimately have "length (nat_digits (nat \<bar>n\<bar>)) \<le> int_max_str_digits"
    by (intro length_nat_digits)
  then show ?thesis by (simp add: str_fits_def)
qed

lemma years_of_cases:
  "years_of ry =
     (case ry of
        None \<Rightarrow> []
      | Some s \<Rightarrow>
          if s = [] then []
          else (case py_int s of
                  Inl e \<Rightarrow> [CStr s, CStr (ascii ''N/A''), CStr (ascii ''N/A'')]
                | Inr y \<Rightarrow>
                    if str_fits y \<and> str_fits (y - 1) \<and> str_fits (y - 2)
                    then [CStr (int_str y), CStr (int_str (y - 1)), CStr (int_str (y - 2))]
                    else [CStr s, CStr (ascii ''N/A''), CStr (ascii ''N/A'')]))"
  by (simp add: years_of_def year_labels_def py_str_def split: option.split sum.split)

subsection \<open>Example documents\<close>

definition elem :: "ustr \<Rightarrow> (ustr \<times> ustr) list \<Rightarrow> element list \<Rightarrow> element" where
  "elem t a cs = Element t a None cs"

text \<open>
  A document with a balance block only: the report year 2023, total assets 100 (90 the
  year before) and inventories 5.
\<close>

definition balance_doc :: element where
  "balance_doc =
     elem tag_Dokument [(attr_OtchetGod, ascii ''2023'')]
       [elem tag_Balans []
          [elem tag_Aktiv [(attr_SumOtch, ascii ''100''), (attr_SumPrdShv, ascii ''90'')]
             [elem tag_Zapasy [(attr_SumOtch, ascii ''5'')] []]]]"

definition balance_file :: element where
  "balance_file = elem (ascii ''File'') [] [balance_doc]"

lemmas tag_defs = tag_Dokument_def tag_Balans_def tag_Aktiv_def tag_MatVneAkt_def
  tag_FinVlozh_def tag_Zapasy_def tag_DenezhnSr_def tag_NeMatFinAkt_def tag_Passiv_def
  tag_KapRez_def tag_DlgZaemSredstv_def tag_DrDolgosrObyaz_def tag_KreditZadolzh_def
  tag_FinRez_def tag_Vyruch_def tag_RaskhObDeyat_def tag_ProchDokhod_def
  tag_ProchRaskhod_def tag_NalPribDokh_def tag_ChistPribUb_def
  attr_OtchetGod_def attr_KND_def attr_SumOtch_def attr_SumPrdShv_def attr_SumPrdShch_def
  attr_SumPred_def

lemmas xml_eval = elem_def find_tag_def get_attr_def ascii_def tag_defs


lemma py_int_2023: "py_int (ascii ''2023'') = Inr 2023"
  by (simp add: num_eval)



lemma py_int_20x3: "py_int (ascii ''20x3'') = Inl ValueError"
  by (simp add: num_eval)

lemma years_of_20x3:
  "years_of (Some (ascii ''20x3'')) =
     [CStr (ascii ''20x3''), CStr (ascii ''N/A''), CStr (ascii ''N/A'')]"
  by (simp add: years_of_def year_labels_def py_int_20x3) (simp add: ascii_def)

subsection \<open>The table, read off the markup\<close>

text \<open>
  The two stages of \<open>parse_accounting_xml\<close>, the intermediate dictionaries and the table
  built from them by their keys, compose to this: a line of the table for an element
  of the markup, when the element is there, holding the values of its attributes.
  \<open>period_cells\<close> are the three attributes of a balance element and \<open>result_cells\<close> the
  two of an element of the financial results; an absent attribute is \<^verbatim>\<open>None\<close>.
\<close>

definition period_cells :: "element \<Rightarrow> cell list" where
  "period_cells e =
     [cell_of (get_attr e attr_SumOtch), cell_of (get_attr e attr_SumPrdShv),
      cell_of (get_attr e attr_SumPrdShch)]"

definition result_cells :: "element \<Rightarrow> cell list" where
  "result_cells e = [cell_of (get_attr e attr_SumOtch), cell_of (get_attr e attr_SumPred)]"

definition item_line ::
  "ustr \<Rightarrow> 'a option \<Rightarrow> ('a \<Rightarrow> cell list) \<Rightarrow> (ustr \<times> cell list) list" where
  "item_line label x f = (case x of None \<Rightarrow> [] | Some e \<Rightarrow> [(label, f e)])"

definition balance_lines :: "element \<Rightarrow> (ustr \<times> cell list) list" where
  "balance_lines b =
     (case find_tag b tag_Aktiv of
        None \<Rightarrow> []
      | Some a \<Rightarrow>
          (lbl_aktiv_total, period_cells a) #
          item_line lbl_non_current_assets (find_tag a tag_MatVneAkt) period_cells @
          item_line lbl_financial_investments (find_tag a tag_FinVlozh) period_cells @
          item_line lbl_inventory (find_tag a tag_Zapasy) period_cells @
          item_line lbl_cash (find_tag a tag_DenezhnSr) period_cells @
          item_line lbl_intangible_assets (find_tag a tag_NeMatFinAkt) period_cells) @
     (case find_tag b tag_Passiv of
        None \<Rightarrow> []
      | Some p \<Rightarrow>
          (lbl_passiv_total, period_cells p) #
          item_line lbl_equity (find_tag p tag_KapRez) period_cells @
          item_line lbl_long_term_debt (find_tag p tag_DlgZaemSredstv) period_cells @
          item_line lbl_other_long_term_liab (find_tag p tag_DrDolgosrObyaz) period_cells @
          item_line lbl_accounts_payable (find_tag p tag_KreditZadolzh) period_cells)"

definition result_lines :: "element \<Rightarrow> (ustr \<times> cell list) list" where
  "result_lines f =
     item_line lbl_revenue (find_tag f tag_Vyruch) result_cells @
     item_line lbl_expenses_ordinary (find_tag f tag_RaskhObDeyat) result_cells @
     item_line lbl_other_income (find_tag f tag_ProchDokhod) result_cells @
     item_line lbl_other_expenses (find_tag f tag_ProchRaskhod) result_cells @
     item_line lbl_income_tax (find_tag f tag_NalPribDokh) result_cells @
     item_line lbl_net_profit (find_tag f tag_ChistPribUb) result_cells"

text \<open>Assignments to keys that differ pairwise leave the dictionary as the list of them.\<close>

lemma update_new: "k \<notin> fst ` set d \<Longrightarrow> AList.update k v d = d @ [(k, v)]"
  by (induction d) auto

lemma foldl_update_distinct:
  "distinct (map fst (d @ kvs)) \<Longrightarrow>
   foldl (\<lambda>d kv. AList.update (fst kv) (snd kv) d) d kvs = d @ kvs"
proof (induction kvs arbitrary: d)
  case Nil
  then show ?case by simp
next
  case (Cons kv kvs)
  from Cons.prems have n: "fst kv \<notin> fst ` set d" by auto
  from Cons.prems have "distinct (map fst ((d @ [kv]) @ kvs))" by simp
  then have "foldl (\<lambda>d kv. AList.update (fst kv) (snd kv) d) (d @ [kv]) kvs = (d @ [kv]) @ kvs"
    by (rule Cons.IH)
  with n show ?case by (simp add: update_new)
qed

lemma dict_of_distinct: "distinct (map fst kvs) \<Longrightarrow> dict_of kvs = kvs"
  using foldl_update_distinct [of "[]" kvs] by (simp add: dict_of_def)

lemma map_of_dict_of: "map_of (dict_of kvs) k = map_of (rev kvs) k"
proof -
  have "map_of (foldl (\<lambda>d kv. AList.update (fst kv) (snd kv) d) d kvs) k =
        map_of (rev kvs @ d) k" for d
  proof (induction kvs arbitrary: d)
    case Nil
    then show ?case by simp
  next
    case (Cons kv kvs)
    show ?case by (simp add: Cons.IH update_conv')
  qed
  from this [of "[]"] show ?thesis by (simp add: dict_of_def)
qed

lemma keys_item_lines:
  "map fst (concat (map (\<lambda>p. item_line (fst p) (snd p) f) ps)) =
   map fst (filter (\<lambda>p. snd p \<noteq> None) ps)"
  by (induction ps) (auto simp: item_line_def split: option.split)

lemma dict_of_item_lines:
  assumes "distinct (map fst ps)"
  shows "dict_of (concat (map (\<lambda>p. item_line (fst p) (snd p) f) ps)) =
         concat (map (\<lambda>p. item_line (fst p) (snd p) f) ps)"
proof (rule dict_of_distinct)
  from assms show "distinct (map fst (concat (map (\<lambda>p. item_line (fst p) (snd p) f) ps)))"
    unfolding keys_item_lines by (rule distinct_map_filter)
qed

lemma map_of_entry: "map_of (entry k x f) k' = (if k' = k then map_option f x else None)"
  by (simp add: entry_def split: option.split)

lemma rev_entry: "rev (entry k x f) = entry k x f"
  by (simp add: entry_def split: option.split)

lemma line_item_line: "line label k d f = item_line label (map_of d k) f"
  by (simp add: line_def item_line_def)

lemma item_line_map_option: "item_line label (map_option g x) f = item_line label x (\<lambda>e. f (g e))"
  by (simp add: item_line_def split: option.split)

lemma triple_cells_of: "triple_cells (triple_of e) = period_cells e"
  by (simp add: triple_cells_def triple_of_def period_cells_def)

lemma pair_cells_of: "pair_cells (pair_of e) = result_cells e"
  by (simp add: pair_cells_def pair_of_def result_cells_def)

lemma side_total_active: "side_total (active_side a) = period_cells a"
  by (simp add: side_total_def active_side_def period_cells_def)

lemma side_total_passive: "side_total (passive_side p) = period_cells p"
  by (simp add: side_total_def passive_side_def period_cells_def)

lemma active_details:
  "map_of (details (active_side a)) ''non_current_assets'' =
     map_option triple_of (find_tag a tag_MatVneAkt)"
  "map_of (details (active_side a)) ''financial_investments'' =
     map_option triple_of (find_tag a tag_FinVlozh)"
  "map_of (details (active_side a)) ''inventory'' = map_option triple_of (find_tag a tag_Zapasy)"
  "map_of (details (active_side a)) ''cash'' = map_option triple_of (find_tag a tag_DenezhnSr)"
  "map_of (details (active_side a)) ''intangible_assets'' =
     map_option triple_of (find_tag a tag_NeMatFinAkt)"
  by (simp_all add: active_side_def map_of_dict_of map_add_def map_of_entry
      rev_entry split: option.split)

lemma passive_details:
  "map_of (details (passive_side p)) ''equity'' = map_option triple_of (find_tag p tag_KapRez)"
  "map_of (details (passive_side p)) ''long_term_debt'' =
     map_option triple_of (find_tag p tag_DlgZaemSredstv)"
  "map_of (details (passive_side p)) ''other_long_term_liab'' =
     map_option triple_of (find_tag p tag_DrDolgosrObyaz)"
  "map_of (details (passive_side p)) ''accounts_payable'' =
     map_option triple_of (find_tag p tag_KreditZadolzh)"
  by (simp_all add: passive_side_def map_of_dict_of map_add_def map_of_entry
      rev_entry split: option.split)

lemma results_details:
  assumes "find_tag doc tag_FinRez = Some f"
  shows "map_of (results_of doc) ''revenue'' = map_option pair_of (find_tag f tag_Vyruch)"
    "map_of (results_of doc) ''expenses'' = map_option pair_of (find_tag f tag_RaskhObDeyat)"
    "map_of (results_of doc) ''other_income'' = map_option pair_of (find_tag f tag_ProchDokhod)"
    "map_of (results_of doc) ''other_expenses'' =
       map_option pair_of (find_tag f tag_ProchRaskhod)"
    "map_of (results_of doc) ''income_tax'' = map_option pair_of (find_tag f tag_NalPribDokh)"
    "map_of (results_of doc) ''net_profit'' = map_option pair_of (find_tag f tag_ChistPribUb)"
  by (simp_all add: results_of_def assms map_of_dict_of map_add_def map_of_entry
      rev_entry split: option.split)

lemma labels_distinct:
  "distinct
     [lbl_aktiv_total, lbl_non_current_assets, lbl_financial_investments, lbl_inventory,
      lbl_cash, lbl_intangible_assets, lbl_passiv_total, lbl_equity, lbl_long_term_debt,
      lbl_other_long_term_liab, lbl_accounts_payable]"
  "distinct
     [lbl_revenue, lbl_expenses_ordinary, lbl_other_income, lbl_other_expenses,
      lbl_income_tax, lbl_net_profit]"
  by (simp_all add: lbl_aktiv_total_def lbl_non_current_assets_def
      lbl_financial_investments_def lbl_inventory_def lbl_cash_def lbl_intangible_assets_def
      lbl_passiv_total_def lbl_equity_def lbl_long_term_debt_def lbl_other_long_term_liab_def
      lbl_accounts_payable_def lbl_revenue_def lbl_expenses_ordinary_def lbl_other_income_def
      lbl_other_expenses_def lbl_income_tax_def lbl_net_profit_def)

lemma item_line_Some: "item_line label (Some e) f = [(label, f e)]"
  by (simp add: item_line_def)

lemma item_line_None: "item_line label None f = []"
  by (simp add: item_line_def)

lemma active_lines:
  "dict_of
     ((lbl_aktiv_total, period_cells a) #
      item_line lbl_non_current_assets x1 period_cells @
      item_line lbl_financial_investments x2 period_cells @
      item_line lbl_inventory x3 period_cells @
      item_line lbl_cash x4 period_cells @
      item_line lbl_intangible_assets x5 period_cells) =
   (lbl_aktiv_total, period_cells a) #
   item_line lbl_non_current_assets x1 period_cells @
   item_line lbl_financial_investments x2 period_cells @
   item_line lbl_inventory x3 period_cells @
   item_line lbl_cash x4 period_cells @
   item_line lbl_intangible_assets x5 period_cells"
  using labels_distinct(1)
    dict_of_item_lines [of
      "[(lbl_aktiv_total, Some a), (lbl_non_current_assets, x1),
        (lbl_financial_investments, x2), (lbl_inventory, x3), (lbl_cash, x4),
        (lbl_intangible_assets, x5)]" period_cells]
  by (simp add: item_line_Some)

lemma passive_lines:
  "dict_of
     ((lbl_passiv_total, period_cells p) #
      item_line lbl_equity y1 period_cells @
      item_line lbl_long_term_debt y2 period_cells @
      item_line lbl_other_long_term_liab y3 period_cells @
      item_line lbl_accounts_payable y4 period_cells) =
   (lbl_passiv_total, period_cells p) #
   item_line lbl_equity y1 period_cells @
   item_line lbl_long_term_debt y2 period_cells @
   item_line lbl_other_long_term_liab y3 period_cells @
   item_line lbl_accounts_payable y4 period_cells"
  using labels_distinct(1)
    dict_of_item_lines [of
      "[(lbl_passiv_total, Some p), (lbl_equity, y1), (lbl_long_term_debt, y2),
        (lbl_other_long_term_liab, y3), (lbl_accounts_payable, y4)]" period_cells]
  by (simp add: item_line_Some)

lemma both_lines:
  "dict_of
     (((lbl_aktiv_total, period_cells a) #
       item_line lbl_non_current_assets x1 period_cells @
       item_line lbl_financial_investments x2 period_cells @
       item_line lbl_inventory x3 period_cells @
       item_line lbl_cash x4 period_cells @
       item_line lbl_intangible_assets x5 period_cells) @
      (lbl_passiv_total, period_cells p) #
      item_line lbl_equity y1 period_cells @
      item_line lbl_long_term_debt y2 period_cells @
      item_line lbl_other_long_term_liab y3 period_cells @
      item_line lbl_accounts_payable y4 period_cells) =
   ((lbl_aktiv_total, period_cells a) #
    item_line lbl_non_current_assets x1 period_cells @
    item_line lbl_financial_investments x2 period_cells @
    item_line lbl_inventory x3 period_cells @
    item_line lbl_cash x4 period_cells @
    item_line lbl_intangible_assets x5 period_cells) @
   (lbl_passiv_total, period_cells p) #
   item_line lbl_equity y1 period_cells @
   item_line lbl_long_term_debt y2 period_cells @
   item_line lbl_other_long_term_liab y3 period_cells @
   item_line lbl_accounts_payable y4 period_cells"
  using labels_distinct(1)
    dict_of_item_lines [of
      "[(lbl_aktiv_total, Some a), (lbl_non_current_assets, x1),
        (lbl_financial_investments, x2), (lbl_inventory, x3), (lbl_cash, x4),
        (lbl_intangible_assets, x5),
        (lbl_passiv_total, Some p), (lbl_equity, y1), (lbl_long_term_debt, y2),
        (lbl_other_long_term_liab, y3), (lbl_accounts_payable, y4)]" period_cells]
  by (simp add: item_line_Some)

lemma multi_balance_lines:
  assumes "find_tag doc tag_Balans = Some b"
  shows "multi_balance (balance_of doc) = balance_lines b"
proof -
  have l: "line label k (details (active_side a)) triple_cells =
      item_line label (map_of (details (active_side a)) k) triple_cells" for label k a
    by (rule line_item_line)
  have m: "line label k (details (passive_side p)) triple_cells =
      item_line label (map_of (details (passive_side p)) k) triple_cells" for label k p
    by (rule line_item_line)
  show ?thesis
  proof (cases "find_tag b tag_Aktiv")
    case None
    note a = this
    show ?thesis
    proof (cases "find_tag b tag_Passiv")
      case None
      with a assms show ?thesis
        by (simp add: multi_balance_def balance_of_def balance_lines_def dict_of_Nil)
    next
      case (Some p)
      with a assms show ?thesis
        by (simp add: multi_balance_def balance_of_def balance_lines_def m passive_details
            item_line_map_option triple_cells_of side_total_passive passive_lines)
    qed
  next
    case (Some a)
    note a = this
    show ?thesis
    proof (cases "find_tag b tag_Passiv")
      case None
      with a assms show ?thesis
        by (simp add: multi_balance_def balance_of_def balance_lines_def l active_details
            item_line_map_option triple_cells_of side_total_active active_lines)
    next
      case (Some p)
      with a assms show ?thesis
        by (simp add: multi_balance_def balance_of_def balance_lines_def l m active_details
            passive_details item_line_map_option triple_cells_of side_total_active
            side_total_passive both_lines [simplified])
    qed
  qed
qed

lemma multi_balance_none:
  "find_tag doc tag_Balans = None \<Longrightarrow> multi_balance (balance_of doc) = []"
  by (simp add: multi_balance_def balance_of_def dict_of_Nil)

lemma multi_results_lines:
  assumes "find_tag doc tag_FinRez = Some f"
  shows "multi_results (results_of doc) = result_lines f"
proof -
  have "dict_of (result_lines f) = result_lines f"
    using labels_distinct(2)
      dict_of_item_lines [of
        "[(lbl_revenue, find_tag f tag_Vyruch),
          (lbl_expenses_ordinary, find_tag f tag_RaskhObDeyat),
          (lbl_other_income, find_tag f tag_ProchDokhod),
          (lbl_other_expenses, find_tag f tag_ProchRaskhod),
          (lbl_income_tax, find_tag f tag_NalPribDokh),
          (lbl_net_profit, find_tag f tag_ChistPribUb)]" result_cells]
    by (simp add: result_lines_def)
  then show ?thesis
    by (simp add: multi_results_def line_item_line results_details [OF assms]
        item_line_map_option pair_cells_of result_lines_def)
qed

lemma multi_results_none:
  "find_tag doc tag_FinRez = None \<Longrightarrow> multi_results (results_of doc) = []"
  by (simp add: results_of_def multi_results_Nil)

lemma balance_lines_length: "list_all (\<lambda>kv. length (snd kv) = 3) (balance_lines b)"
  by (simp add: balance_lines_def item_line_def period_cells_def split: option.split)

lemma balance_only_table:
  assumes "find_tag tree tag_Dokument = Some doc"
    and "find_tag doc tag_Balans = Some b"
    and "find_tag doc tag_FinRez = None"
  shows "multi_year_data (parse_accounting_xml (Inr tree)) =
     Some \<lparr>years = years_of (get_attr doc attr_OtchetGod), my_balance = balance_lines b,
           my_financial_results = []\<rparr>"
  using assms(1)
  by (simp add: parse_accounting_xml_def Let_def multi_balance_lines [OF assms(2)]
      multi_results_none [OF assms(3)])

subsection \<open>C6: a document with a balance block only\<close>

text \<open>
  A document with a balance block only whose report year is the empty string, as in
  the markup \<^verbatim>\<open><Dokument OtchetGod=""><Balans><Aktiv SumOtch="100"/></Balans></Dokument>\<close>.
\<close>

definition empty_year_doc :: element where
  "empty_year_doc =
     elem tag_Dokument [(attr_OtchetGod, [])]
       [elem tag_Balans [] [elem tag_Aktiv [(attr_SumOtch, ascii ''100'')] []]]"

definition empty_year_file :: element where
  "empty_year_file = elem (ascii ''File'') [] [empty_year_doc]"

text \<open>
  C6, as the code has it. Let the markup hold a document element with a balance block
  \<open>b\<close> and no block of financial results. Then \<open>parse_accounting_xml\<close> produces
  \<^verbatim>\<open>multi_year_data\<close> in which \<^verbatim>\<open>balance\<close> holds, for each side of \<open>b\<close> that is present,
  the line of its totals and one line for each of its item elements found, each line
  with exactly 3 positions, the attribute values of the three periods;
  \<^verbatim>\<open>financial_results\<close> is empty. The years come from the report year of the document:
  there are none when it is absent or the empty string; otherwise, when it parses as
  an integer \<open>y\<close> and \<^verbatim>\<open>str\<close> writes \<open>y\<close>, \<open>y - 1\<close> and \<open>y - 2\<close> (it refuses integers of more
  than 4300 digits), they are these three in decimal; otherwise they are the label as
  it stands and twice the placeholder \<^verbatim>\<open>N/A\<close>.
\<close>

theorem balance_only_document:
  assumes "find_tag tree tag_Dokument = Some doc"
    and "find_tag doc tag_Balans = Some b"
    and "find_tag doc tag_FinRez = None"
  shows "\<exists>my. multi_year_data (parse_accounting_xml (Inr tree)) = Some my \<and>
     my_balance my = balance_lines b \<and>
     list_all (\<lambda>kv. length (snd kv) = 3) (my_balance my) \<and>
     my_financial_results my = [] \<and>
     years my =
       (case get_attr doc attr_OtchetGod of
          None \<Rightarrow> []
        | Some s \<Rightarrow>
            if s = [] then []
            else (case py_int s of
                    Inl e \<Rightarrow> [CStr s, CStr (ascii ''N/A''), CStr (ascii ''N/A'')]
                  | Inr y \<Rightarrow>
                      if str_fits y \<and> str_fits (y - 1) \<and> str_fits (y - 2)
                      then [CStr (int_str y), CStr (int_str (y - 1)), CStr (int_str (y - 2))]
                      else [CStr s, CStr (ascii ''N/A''), CStr (ascii ''N/A'')]))"
  unfolding balance_only_table [OF assms] years_of_cases
  by (simp add: balance_lines_length)

theorem balance_only_document_witness:
  "find_tag balance_file tag_Dokument = Some balance_doc \<and>
   find_tag balance_doc tag_Balans =
     Some (elem tag_Balans []
       [elem tag_Aktiv [(attr_SumOtch, ascii ''100''), (attr_SumPrdShv, ascii ''90'')]
          [elem tag_Zapasy [(attr_SumOtch, ascii ''5'')] []]]) \<and>
   find_tag balance_doc tag_FinRez = None \<and>
   (\<exists>my. multi_year_data (parse_accounting_xml (Inr balance_file)) = Some my \<and>
      my_balance my =
        [(lbl_aktiv_total, [CStr (ascii ''100''), CStr (ascii ''90''), CNone]),
         (lbl_inventory, [CStr (ascii ''5''), CNone, CNone])] \<and>
      list_all (\<lambda>kv. length (snd kv) = 3) (my_balance my) \<and>
      my_financial_results my = [] \<and>
      years my = [CStr (ascii ''2023''), CStr (ascii ''2022''), CStr (ascii ''2021'')])"
proof -
  let ?b = "elem tag_Balans []
       [elem tag_Aktiv [(attr_SumOtch, ascii ''100''), (attr_SumPrdShv, ascii ''90'')]
          [elem tag_Zapasy [(attr_SumOtch, ascii ''5'')] []]]"
  have d: "find_tag balance_file tag_Dokument = Some balance_doc"
    by (simp add: balance_file_def balance_doc_def xml_eval)
  have b: "find_tag balance_doc tag_Balans = Some ?b"
    by (simp add: balance_doc_def xml_eval)
  have f: "find_tag balance_doc tag_FinRez = None"
    by (simp add: balance_doc_def xml_eval)
  have y: "get_attr balance_doc attr_OtchetGod = Some (ascii ''2023'')"
    by (simp add: balance_doc_def xml_eval)
  have s: "str_fits 2023 \<and> str_fits (2023 - 1) \<and> str_fits (2023 - 2)"
    by (simp add: str_fits_def nat_digits.simps int_max_str_digits_def)
  have i: "int_str 2023 = ascii ''2023'' \<and> int_str 2022 = ascii ''2022'' \<and>
           int_str 2021 = ascii ''2021''"
    by (simp add: int_str_def nat_digits.simps ascii_def)
  have l: "balance_lines ?b =
      [(lbl_aktiv_total, [CStr (ascii ''100''), CStr (ascii ''90''), CNone]),
       (lbl_inventory, [CStr (ascii ''5''), CNone, CNone])]"
    by (simp add: balance_lines_def item_line_def period_cells_def cell_of_def xml_eval)
  have n: "ascii ''2023'' \<noteq> []" by (simp add: ascii_def)
  from balance_only_document [OF d b f] obtain my where
    "multi_year_data (parse_accounting_xml (Inr balance_file)) = Some my"
    "my_balance my = balance_lines ?b"
    "list_all (\<lambda>kv. length (snd kv) = 3) (my_balance my)"
    "my_financial_results my = []"
    "years my =
       (case get_attr balance_doc attr_OtchetGod of
          None \<Rightarrow> []
        | Some s \<Rightarrow>
            if s = [] then []
            else (case py_int s of
                    Inl e \<Rightarrow> [CStr s, CStr (ascii ''N/A''), CStr (ascii ''N/A'')]
                  | Inr y \<Rightarrow>
                      if str_fits y \<and> str_fits (y - 1) \<and> str_fits (y - 2)
                      then [CStr (int_str y), CStr (int_str (y - 1)), CStr (int_str (y - 2))]
                      else [CStr s, CStr (ascii ''N/A''), CStr (ascii ''N/A'')]))"
    by blast
  then have "\<exists>my. multi_year_data (parse_accounting_xml (Inr balance_file)) = Some my \<and>
      my_balance my =
        [(lbl_aktiv_total, [CStr (ascii ''100''), CStr (ascii ''90''), CNone]),
         (lbl_inventory, [CStr (ascii ''5''), CNone, CNone])] \<and>
      list_all (\<lambda>kv. length (snd kv) = 3) (my_balance my) \<and>
      my_financial_results my = [] \<and>
      years my = [CStr (ascii ''2023''), CStr (ascii ''2022''), CStr (ascii ''2021'')]"
    using s i n by (simp add: y py_int_2023 l)
  with d b f show ?thesis by blast
qed

text \<open>
  The claim as written says that the years fall back to the placeholder when the year
  label does not parse as an integer. The empty label does not parse, \<^verbatim>\<open>int('')\<close>
  raises, yet the code skips the years altogether: the document gets the line of the
  assets with its 3 positions and no year at all, neither the label nor a placeholder.
\<close>

theorem empty_year_label_counterexample:
  "py_int [] = Inl ValueError \<and>
   multi_year_data (parse_accounting_xml (Inr empty_year_file)) =
     Some \<lparr>years = [],
           my_balance = [(lbl_aktiv_total, [CStr (ascii ''100''), CNone, CNone])],
           my_financial_results = []\<rparr>"
proof -
  let ?b = "elem tag_Balans [] [elem tag_Aktiv [(attr_SumOtch, ascii ''100'')] []]"
  have d: "find_tag empty_year_file tag_Dokument = Some empty_year_doc"
    by (simp add: empty_year_file_def empty_year_doc_def xml_eval)
  have b: "find_tag empty_year_doc tag_Balans = Some ?b"
    by (simp add: empty_year_doc_def xml_eval)
  have f: "find_tag empty_year_doc tag_FinRez = None"
    by (simp add: empty_year_doc_def xml_eval)
  have y: "get_attr empty_year_doc attr_OtchetGod = Some []"
    by (simp add: empty_year_doc_def xml_eval)
  have l: "balance_lines ?b = [(lbl_aktiv_total, [CStr (ascii ''100''), CNone, CNone])]"
    by (simp add: balance_lines_def item_line_def period_cells_def cell_of_def xml_eval)
  have p: "py_int [] = Inl ValueError"
    by (simp add: num_eval)
  show ?thesis
    by (simp add: p balance_only_table [OF d b f] y years_of_def l)
qed

section \<open>Splitting strings\<close>

text \<open>
  \<^verbatim>\<open>sub in s\<close> is \<open>sublist sub s\<close> and \<^verbatim>\<open>s.startswith(p)\<close> is \<open>prefix p s\<close>.
  \<open>split_first sep s\<close> cuts \<open>s\<close> at the leftmost occurrence of \<open>sep\<close>: what stands before
  it and, when there is an occurrence, what follows it.
\<close>

fun split_first :: "ustr \<Rightarrow> ustr \<Rightarrow> ustr \<times> ustr option" where
  "split_first sep [] = ([], None)"
| "split_first sep (c # cs) =
     (if prefix sep (c # cs) then ([], Some (drop (length sep) (c # cs)))
      else (case split_first sep cs of (b, r) \<Rightarrow> (c # b, r)))"

lemma split_first_shorter:
  "sep \<noteq> [] \<Longrightarrow> split_first sep s = (b, Some r) \<Longrightarrow> length r < length s"
proof (induction s arbitrary: b)
  case Nil
  then show ?case by simp
next
  case (Cons c cs)
  show ?case
  proof (cases "prefix sep (c # cs)")
    case True
    with Cons.prems show ?thesis by (cases sep) auto
  next
    case False
    with Cons.prems obtain b' where "split_first sep cs = (b', Some r)"
      by (auto split: prod.splits)
    with Cons.IH Cons.prems(1) have "length r < length cs" by blast
    then show ?thesis by simp
  qed
qed

text \<open>
  \<^verbatim>\<open>s.split(sep)\<close>: the pieces between the occurrences of \<open>sep\<close>, taken from the left
  without overlap; an empty separator raises \<^verbatim>\<open>ValueError\<close>. \<^verbatim>\<open>xs[i]\<close> raises
  \<^verbatim>\<open>IndexError\<close> out of range.
\<close>

function py_split_rec :: "ustr \<Rightarrow> ustr \<Rightarrow> ustr list" where
  "py_split_rec sep s =
     (if sep = [] then [s]
      else (case split_first sep s of
              (b, None) \<Rightarrow> [b]
            | (b, Some r) \<Rightarrow> b # py_split_rec sep r))"
  by pat_completeness auto
termination
  by (relation "measure (\<lambda>(sep, s). length s)") (auto dest: split_first_shorter [OF _ sym])

declare py_split_rec.simps [simp del]

definition py_split :: "ustr \<Rightarrow> ustr \<Rightarrow> py_exc + ustr list" where
  "py_split s sep = (if sep = [] then Inl ValueError else Inr (py_split_rec sep s))"

definition py_index :: "'a list \<Rightarrow> nat \<Rightarrow> py_exc + 'a" where
  "py_index xs i = (if i < length xs then Inr (xs ! i) else Inl IndexError)"

text \<open>Sequencing of steps that may raise.\<close>

definition and_then :: "py_exc + 'a \<Rightarrow> ('a \<Rightarrow> py_exc + 'b) \<Rightarrow> py_exc + 'b" where
  "and_then m f = (case m of Inl e \<Rightarrow> Inl e | Inr x \<Rightarrow> f x)"

section \<open>The delegated AI extractor\<close>

subsection \<open>Code fences\<close>

text \<open>
  \<^verbatim>\<open>
  response_text = response.text.strip()
  if "```json" in response_text:
      response_text = response_text.split("```json")[1].split("```")[0].strip()
  elif "```" in response_text:
      response_text = response_text.split("```")[1].split("```")[0].strip()
  data = json.loads(response_text)
  \<close>
  The fence marker is three backquotes (code point 96).
\<close>

definition fence :: ustr where
  "fence = [96, 96, 96]"

definition fence_json :: ustr where
  "fence_json = [96, 96, 96, 106, 115, 111, 110]"

definition between_fences :: "ustr \<Rightarrow> ustr \<Rightarrow> py_exc + ustr" where
  "between_fences opener response_text =
     and_then (py_split response_text opener) (\<lambda>parts.
     and_then (py_index parts 1) (\<lambda>inner.
     and_then (py_split inner fence) (\<lambda>parts'.
     and_then (py_index parts' 0) (\<lambda>payload. Inr (py_strip payload)))))"

definition strip_fences :: "ustr \<Rightarrow> py_exc + ustr" where
  "strip_fences response_text =
     (if sublist fence_json response_text then between_fences fence_json response_text
      else if sublist fence response_text then between_fences fence response_text
      else Inr response_text)"

text \<open>A payload between code fences, with and without the language tag.\<close>

definition wrap_json :: "ustr \<Rightarrow> ustr" where
  "wrap_json j = fence_json @ [10] @ j @ [10] @ fence"

definition wrap_plain :: "ustr \<Rightarrow> ustr" where
  "wrap_plain j = fence @ [10] @ j @ [10] @ fence"

subsection \<open>Facts about fences\<close>

lemma split_first_prefix:
  "sep \<noteq> [] \<Longrightarrow> prefix sep s \<Longrightarrow> split_first sep s = ([], Some (drop (length sep) s))"
  by (cases s) auto

lemma split_first_none: "\<not> sublist sep s \<Longrightarrow> split_first sep s = (s, None)"
  by (induction s) (auto simp: sublist_Cons_right)

lemma not_prefix_across:
  assumes "\<not> sublist sep j" and "x \<notin> set sep"
  shows "\<not> prefix sep (j @ x # r)"
proof
  assume "prefix sep (j @ x # r)"
  then consider "prefix sep j" | us where "sep = j @ us" "prefix us (x # r)"
    by (auto simp: prefix_append)
  then show False
  proof cases
    case 1
    then have "sublist sep j" by (rule prefix_imp_sublist)
    with assms(1) show False by simp
  next
    case 2
    show False
    proof (cases us)
      case Nil
      with 2 assms(1) show False by simp
    next
      case (Cons u us')
      with 2 assms(2) show False by simp
    qed
  qed
qed

lemma split_first_across:
  assumes "\<not> sublist sep j" and "x \<notin> set sep" and "sep \<noteq> []"
  shows "split_first sep (j @ x # r) = (j @ x # fst (split_first sep r), snd (split_first sep r))"
  using assms(1)
proof (induction j)
  case Nil
  from assms(2,3) have "\<not> prefix sep (x # r)" by (cases sep) auto
  then show ?case by (simp split: prod.split)
next
  case (Cons c cs)
  from Cons.prems have n: "\<not> sublist sep cs" by (simp add: sublist_Cons_right)
  from Cons.prems assms(2) have "\<not> prefix sep ((c # cs) @ x # r)" by (rule not_prefix_across)
  with Cons.IH [OF n] show ?case by (simp split: prod.split)
qed

lemma sublist_across:
  assumes "x \<notin> set sep" and "sep \<noteq> []"
  shows "sublist sep (j @ x # r) \<longleftrightarrow> sublist sep j \<or> sublist sep r"
proof (induction j)
  case Nil
  from assms have "\<not> prefix sep (x # r)" by (cases sep) auto
  then show ?case using assms(2) by (simp add: sublist_Cons_right)
next
  case (Cons c cs)
  show ?case
  proof (cases "sublist sep (c # cs)")
    case True
    then have "sublist sep ((c # cs) @ x # r)" by (simp only: sublist_append) blast
    with True show ?thesis by simp
  next
    case False
    from False assms(1) have "\<not> prefix sep ((c # cs) @ x # r)" by (rule not_prefix_across)
    moreover from False have "\<not> sublist sep cs" by (simp add: sublist_Cons_right)
    ultimately show ?thesis using Cons.IH False by (simp add: sublist_Cons_right)
  qed
qed

lemma strip_chars_sublist: "sublist (strip_chars p s) s"
proof -
  have "sublist (dropWhile p (rev (dropWhile p s))) (rev (dropWhile p s))"
    by (rule sublist_dropWhile)
  then have "sublist (rev (dropWhile p (rev (dropWhile p s)))) (dropWhile p s)"
    by (metis rev_rev_ident sublist_rev)
  moreover have "sublist (dropWhile p s) s" by (rule sublist_dropWhile)
  ultimately show ?thesis
    unfolding strip_chars_def by (rule sublist_order.order.trans)
qed

lemma strip_chars_padded:
  assumes "p x" and "p y"
  shows "strip_chars p (x # s @ [y]) = strip_chars p s"
proof (cases "\<forall>c\<in>set s. p c")
  case True
  then have e: "dropWhile p s = []" by simp
  from True assms have e': "dropWhile p (x # s @ [y]) = []" by simp
  show ?thesis unfolding strip_chars_def e e' by simp
next
  case False
  then have d: "dropWhile p s \<noteq> []" by simp
  from False have "dropWhile p (s @ [y]) = dropWhile p s @ [y]"
    by (simp add: dropWhile_append)
  with assms d show ?thesis by (simp add: strip_chars_def)
qed

lemma fence_in_fence_json: "sublist fence_json s \<Longrightarrow> sublist fence s"
proof -
  have "sublist fence fence_json"
    by (rule prefix_imp_sublist) (simp add: fence_def fence_json_def)
  then show "sublist fence_json s \<Longrightarrow> sublist fence s"
    by (rule sublist_order.order.trans)
qed

lemma strip_fences_plain_text:
  assumes "\<not> sublist fence s"
  shows "strip_fences s = Inr s"
  using assms fence_in_fence_json [of s] by (auto simp: strip_fences_def)

lemma py_split_head:
  "sep \<noteq> [] \<Longrightarrow> py_split s sep = Inr (fst (split_first sep s) #
      (case snd (split_first sep s) of None \<Rightarrow> [] | Some r \<Rightarrow> py_split_rec sep r))"
  by (simp add: py_split_def py_split_rec.simps [of sep s] split: prod.split option.split)

lemma py_split_rec_head:
  "sep \<noteq> [] \<Longrightarrow> py_split_rec sep s = fst (split_first sep s) #
      (case snd (split_first sep s) of None \<Rightarrow> [] | Some r \<Rightarrow> py_split_rec sep r)"
  by (simp add: py_split_rec.simps [of sep s] split: prod.split option.split)

lemma first_part:
  "sep \<noteq> [] \<Longrightarrow> and_then (py_split s sep) (\<lambda>parts. and_then (py_index parts 0) f) =
     f (fst (split_first sep s))"
  by (simp add: py_split_head and_then_def py_index_def)

lemma second_part:
  assumes "sep \<noteq> []" and "split_first sep s = (b, Some r)"
  shows "and_then (py_split s sep) (\<lambda>parts. and_then (py_index parts 1) f) =
     f (fst (split_first sep r))"
  using assms
  by (simp add: py_split_head py_split_rec_head [of sep r] and_then_def py_index_def)

lemma between_fences_wrapped:
  assumes j: "\<not> sublist fence j"
    and o: "opener \<noteq> []" "10 \<notin> set opener" "sublist fence opener"
  shows "between_fences opener (opener @ [10] @ j @ [10] @ fence) = Inr (py_strip j)"
proof -
  let ?rest = "10 # j @ 10 # fence"
  have nf: "fence \<noteq> []" "10 \<notin> set fence" by (simp_all add: fence_def)
  have jo: "\<not> sublist opener j"
    using j o(3) sublist_order.order.trans by blast
  have 1: "split_first opener (opener @ [10] @ j @ [10] @ fence) = ([], Some ?rest)"
    using o(1) by (simp add: split_first_prefix)
  have "split_first fence fence = ([], Some [])"
    by (simp add: split_first_prefix nf)
  then have 3: "split_first fence ?rest = (10 # j @ [10], Some [])"
    using split_first_across [OF j nf(2) nf(1), of fence]
      split_first_across [where sep = fence and j = "[]" and x = 10 and r = "j @ 10 # fence"] nf
    by simp
  have "\<not> sublist opener fence \<or> opener = fence"
    using o(3) sublist_order.order.antisym by blast
  then have "fst (split_first opener ?rest) = ?rest \<or> opener = fence"
    using split_first_across [OF jo o(2) o(1), of fence]
      split_first_across [where sep = opener and j = "[]" and x = 10 and r = "j @ 10 # fence"] o
    by (auto simp: split_first_none)
  then show ?thesis
  proof
    assume r: "fst (split_first opener ?rest) = ?rest"
    have "between_fences opener (opener @ [10] @ j @ [10] @ fence) =
        and_then (py_split ?rest fence) (\<lambda>parts'.
          and_then (py_index parts' 0) (\<lambda>payload. Inr (py_strip payload)))"
      unfolding between_fences_def by (subst second_part [OF o(1) 1]) (simp only: r)
    also have "\<dots> = Inr (py_strip (10 # j @ [10]))"
      by (simp only: first_part [OF nf(1)] 3 fst_conv)
    also have "py_strip (10 # j @ [10]) = py_strip j"
      unfolding py_strip_def by (rule strip_chars_padded) (simp_all add: is_space_def)
    finally show ?thesis .
  next
    assume e: "opener = fence"
    have "\<not> sublist fence (10 # j @ [10])"
      using sublist_across [where x = 10 and sep = fence and j = "[]" and r = "j @ [10]"]
        sublist_across [where x = 10 and sep = fence and j = j and r = "[]"] nf j
      by simp
    then have 4: "split_first fence (10 # j @ [10]) = (10 # j @ [10], None)"
      by (rule split_first_none)
    have "between_fences opener (opener @ [10] @ j @ [10] @ fence) =
        and_then (py_split (10 # j @ [10]) fence) (\<lambda>parts'.
          and_then (py_index parts' 0) (\<lambda>payload. Inr (py_strip payload)))"
      unfolding between_fences_def
      by (subst second_part [OF o(1) 1]) (simp only: e 3 fst_conv)
    also have "\<dots> = Inr (py_strip (10 # j @ [10]))"
      by (simp only: first_part [OF nf(1)] 4 fst_conv)
    also have "py_strip (10 # j @ [10]) = py_strip j"
      unfolding py_strip_def by (rule strip_chars_padded) (simp_all add: is_space_def)
    finally show ?thesis .
  qed
qed

subsection \<open>analyze\_pdf\_with\_gemini\<close>

text \<open>
  What \<^verbatim>\<open>json.loads\<close> returns. A number is an \<^verbatim>\<open>int\<close> or a \<^verbatim>\<open>float\<close>; the constants
  \<^verbatim>\<open>NaN\<close>, \<^verbatim>\<open>Infinity\<close> and \<^verbatim>\<open>-Infinity\<close>, which Python's parser accepts as well, are
  \<open>JNaN\<close> and \<open>JInfinity\<close> (with the sign). The keys of an object are distinct.
\<close>

datatype json =
  JNull | JBool bool | JNum pynum | JNaN | JInfinity bool | JStr ustr | JArr "json list"
  | JObj "(ustr \<times> json) list"

text \<open>\<^verbatim>\<open>data.get(k)\<close> on a dictionary: a missing key and the value \<^verbatim>\<open>null\<close> both give \<^verbatim>\<open>None\<close>.\<close>

definition json_get :: "(ustr \<times> json) list \<Rightarrow> string \<Rightarrow> json option" where
  "json_get kvs k =
     (case map_of kvs (ascii k) of
        None \<Rightarrow> None
      | Some v \<Rightarrow> if v = JNull then None else Some v)"

record ai_result = "(json, json) extraction" +
  analysis :: "json option"
  raw_response :: "ustr option"

definition json_error_prefix :: ustr where \<comment> \<open>message \<^verbatim>\<open>Oshibka parsinga JSON ot AI: \<close>\<close>
  "json_error_prefix =
     [1054, 1096, 1080, 1073, 1082, 1072, 32, 1087, 1072, 1088, 1089, 1080, 1085, 1075,
      1072, 32, 74, 83, 79, 78, 32, 1086, 1090, 32, 65, 73, 58, 32]"

definition ai_error_prefix :: ustr where \<comment> \<open>message \<^verbatim>\<open>Oshibka AI-analiza: \<close>\<close>
  "ai_error_prefix =
     [1054, 1096, 1080, 1073, 1082, 1072, 32, 65, 73, 45, 1072, 1085, 1072, 1083, 1080,
      1079, 1072, 58, 32]"

definition ai_failed :: "diagnostic \<Rightarrow> ustr option \<Rightarrow> ai_result" where
  "ai_failed d raw =
     \<lparr>success = False, report_type = None, report_year = None, multi_year_data = None,
      error = Some d, analysis = None, raw_response = raw\<rparr>"

text \<open>
  The function takes the model's answer (\<^verbatim>\<open>response.text\<close>, or the exception raised while
  the file was read and the service called) and the JSON parser, which stands outside
  the repository:
  \<^verbatim>\<open>
  try:
      ...
      response = model.generate_content(parts)
      response_text = response.text.strip()
      (the fences are removed)
      data = json.loads(response_text)
      result["success"] = True
      result["report_type"] = data.get("report_type")
      result["report_year"] = data.get("report_year")
      result["company_info"] = data.get("company_info", {})
      result["multi_year_data"] = data.get("multi_year_data")
      result["analysis"] = data.get("analysis")
      result["text"] = ""
  except json.JSONDecodeError as e:
      result["error"] = f"... JSON ... AI: {str(e)}"
      result["raw_response"] = response_text if 'response_text' in locals() else None
  except Exception as e:
      result["error"] = f"... AI-...: {str(e)}"
  return result
  \<close>
  When the answer parses to a value that is not a dictionary, \<^verbatim>\<open>data.get\<close> raises
  \<^verbatim>\<open>AttributeError\<close> after \<^verbatim>\<open>success\<close> has been set, so the result keeps \<^verbatim>\<open>success = True\<close>
  beside the error.
\<close>

definition analyze_pdf_with_gemini :: "(ustr \<Rightarrow> py_exc + json) \<Rightarrow> py_exc + ustr \<Rightarrow> ai_result" where
  "analyze_pdf_with_gemini json_loads response =
     (case response of
        Inl e \<Rightarrow> ai_failed (MsgExc ai_error_prefix e) None
      | Inr answer \<Rightarrow>
          (case strip_fences (py_strip answer) of
             Inl e \<Rightarrow> ai_failed (MsgExc ai_error_prefix e) None
           | Inr response_text \<Rightarrow>
               (case json_loads response_text of
                  Inl e \<Rightarrow>
                    if e = JSONDecodeError
                    then ai_failed (MsgExc json_error_prefix e) (Some response_text)
                    else ai_failed (MsgExc ai_error_prefix e) None
                | Inr data \<Rightarrow>
                    (case data of
                       JObj kvs \<Rightarrow>
                         \<lparr>success = True,
                          report_type = json_get kvs ''report_type'',
                          report_year = json_get kvs ''report_year'',
                          multi_year_data = json_get kvs ''multi_year_data'',
                          error = None,
                          analysis = json_get kvs ''analysis'',
                          raw_response = None\<rparr>
                     | _ \<Rightarrow>
                         \<lparr>success = True, report_type = None, report_year = None,
                          multi_year_data = None,
                          error = Some (MsgExc ai_error_prefix AttributeError),
                          analysis = None, raw_response = None\<rparr>))))"

subsection \<open>C9: fences around the payload\<close>

lemma py_strip_wrap_json: "py_strip (wrap_json j) = wrap_json j"
  unfolding py_strip_def
  by (rule strip_chars_fixed) (simp add: wrap_json_def fence_json_def fence_def is_space_def)

lemma py_strip_wrap_plain: "py_strip (wrap_plain j) = wrap_plain j"
  unfolding py_strip_def
  by (rule strip_chars_fixed) (simp add: wrap_plain_def fence_def is_space_def)

lemma strip_fences_bare:
  assumes "\<not> sublist fence j"
  shows "strip_fences (py_strip j) = Inr (py_strip j)"
proof (rule strip_fences_plain_text)
  have "sublist (py_strip j) j" unfolding py_strip_def by (rule strip_chars_sublist)
  with assms show "\<not> sublist fence (py_strip j)"
    using sublist_order.order.trans by blast
qed

lemma strip_fences_wrap_json:
  assumes "\<not> sublist fence j"
  shows "strip_fences (py_strip (wrap_json j)) = Inr (py_strip j)"
proof -
  have "sublist fence_json (wrap_json j)"
    by (simp add: wrap_json_def)
  moreover have "between_fences fence_json (wrap_json j) = Inr (py_strip j)"
    unfolding wrap_json_def using assms
    by (rule between_fences_wrapped)
       (simp_all add: fence_json_def fence_def prefix_imp_sublist)
  ultimately show ?thesis by (simp add: strip_fences_def py_strip_wrap_json)
qed

lemma strip_fences_wrap_plain:
  assumes "\<not> sublist fence j"
  shows "strip_fences (py_strip (wrap_plain j)) = Inr (py_strip j)"
proof -
  have n: "10 \<notin> set fence_json" "fence_json \<noteq> []" by (simp_all add: fence_json_def)
  have s: "\<not> sublist fence_json fence"
    using sublist_length_le [of fence_json fence] by (auto simp: fence_json_def fence_def)
  have "\<not> sublist fence_json j" using assms fence_in_fence_json by blast
  then have "\<not> sublist fence_json (wrap_plain j)"
    using s sublist_across [OF n, of fence "j @ 10 # fence"] sublist_across [OF n, of j fence]
    by (simp add: wrap_plain_def)
  moreover have "sublist fence (wrap_plain j)"
    by (simp add: wrap_plain_def)
  moreover have "between_fences fence (wrap_plain j) = Inr (py_strip j)"
    unfolding wrap_plain_def using assms
    by (rule between_fences_wrapped) (simp_all add: fence_def)
  ultimately show ?thesis by (simp add: strip_fences_def py_strip_wrap_plain)
qed

text \<open>
  C9, as the code has it. Let a JSON payload hold no run of three backquotes. Then the
  answer that is the payload between code fences, with the language tag \<^verbatim>\<open>json\<close> or
  without it, is parsed exactly as the answer that is the payload alone: the same text
  reaches \<^verbatim>\<open>json.loads\<close> (the payload without its surrounding whitespace), so the whole
  result is the same, whatever the JSON parser returns.
\<close>

theorem fenced_response_parsed_alike:
  assumes "\<not> sublist fence j"
  shows "strip_fences (py_strip (wrap_json j)) = Inr (py_strip j) \<and>
     strip_fences (py_strip (wrap_plain j)) = Inr (py_strip j) \<and>
     strip_fences (py_strip j) = Inr (py_strip j) \<and>
     analyze_pdf_with_gemini json_loads (Inr (wrap_json j)) =
       analyze_pdf_with_gemini json_loads (Inr j) \<and>
     analyze_pdf_with_gemini json_loads (Inr (wrap_plain j)) =
       analyze_pdf_with_gemini json_loads (Inr j)"
  using strip_fences_wrap_json [OF assms] strip_fences_wrap_plain [OF assms]
    strip_fences_bare [OF assms]
  by (simp add: analyze_pdf_with_gemini_def)

text \<open>
  The payload \<^verbatim>\<open>{"a": "```1```"}\<close> is valid JSON with three backquotes inside a string.
  The parser used in the examples answers as \<^verbatim>\<open>json.loads\<close> does on the texts that occur
  there: the number 1 for \<^verbatim>\<open>1\<close>, the same dictionary for \<^verbatim>\<open>{"a": 1}\<close> with or without
  surrounding whitespace, and a \<^verbatim>\<open>JSONDecodeError\<close> for the unterminated \<^verbatim>\<open>{"a": "\<close>.
\<close>

definition backquoted_payload :: ustr where
  "backquoted_payload =
     [123, 34, 97, 34, 58, 32, 34, 96, 96, 96, 49, 96, 96, 96, 34, 125]"

definition plain_payload :: ustr where \<comment> \<open>\<^verbatim>\<open>{"a": 1}\<close>\<close>
  "plain_payload = [123, 34, 97, 34, 58, 32, 49, 125]"

definition sample_loads :: "ustr \<Rightarrow> py_exc + json" where
  "sample_loads t =
     (if t = [49] then Inr (JNum (PyInt 1))
      else if t = plain_payload then Inr (JObj [([97], JNum (PyInt 1))])
      else Inl JSONDecodeError)"

lemmas fence_eval = strip_fences_def between_fences_def py_split_def py_index_def
  and_then_def py_split_rec_head split_first.simps sublist_Cons_right fence_def
  fence_json_def wrap_json_def wrap_plain_def py_strip_def strip_chars_def is_space_def

theorem fenced_response_parsed_alike_witness:
  "\<not> sublist fence plain_payload \<and>
   strip_fences (py_strip (wrap_json plain_payload)) = Inr plain_payload \<and>
   strip_fences (py_strip (wrap_plain plain_payload)) = Inr plain_payload \<and>
   analyze_pdf_with_gemini sample_loads (Inr (wrap_json plain_payload)) =
     analyze_pdf_with_gemini sample_loads (Inr plain_payload) \<and>
   success (analyze_pdf_with_gemini sample_loads (Inr (wrap_plain plain_payload)))"
proof -
  have n: "\<not> sublist fence plain_payload"
    by (simp add: plain_payload_def fence_def sublist_Cons_right)
  have s: "py_strip plain_payload = plain_payload"
    by (simp add: plain_payload_def py_strip_def strip_chars_def is_space_def)
  from fenced_response_parsed_alike [OF n, of sample_loads] n show ?thesis
    by (simp add: s analyze_pdf_with_gemini_def sample_loads_def strip_fences_plain_text)
qed

text \<open>
  The claim as written holds of every JSON payload. For the payload above it fails:
  without fences the text between its own backquotes, \<^verbatim>\<open>1\<close>, reaches the parser, and the
  result has \<^verbatim>\<open>success = True\<close>; between fences the text up to its first backquotes,
  \<^verbatim>\<open>{"a": "\<close>, reaches the parser, which rejects it.
\<close>

theorem fenced_response_counterexample:
  "strip_fences (py_strip backquoted_payload) = Inr [49] \<and>
   strip_fences (py_strip (wrap_plain backquoted_payload)) = Inr [123, 34, 97, 34, 58, 32, 34] \<and>
   strip_fences (py_strip (wrap_json backquoted_payload)) = Inr [123, 34, 97, 34, 58, 32, 34] \<and>
   success (analyze_pdf_with_gemini sample_loads (Inr backquoted_payload)) \<and>
   \<not> success (analyze_pdf_with_gemini sample_loads (Inr (wrap_plain backquoted_payload))) \<and>
   \<not> success (analyze_pdf_with_gemini sample_loads (Inr (wrap_json backquoted_payload)))"
proof -
  have a: "strip_fences (py_strip backquoted_payload) = Inr [49]"
    by (simp add: backquoted_payload_def fence_eval)
  have b: "strip_fences (py_strip (wrap_plain backquoted_payload)) =
      Inr [123, 34, 97, 34, 58, 32, 34]"
    by (simp add: backquoted_payload_def fence_eval)
  have c: "strip_fences (py_strip (wrap_json backquoted_payload)) =
      Inr [123, 34, 97, 34, 58, 32, 34]"
    by (simp add: backquoted_payload_def fence_eval)
  show ?thesis
    by (simp add: a b c analyze_pdf_with_gemini_def sample_loads_def plain_payload_def
        ai_failed_def)
qed

section \<open>The heuristic pattern extractor\<close>

subsection \<open>Regular expressions\<close>

text \<open>
  The module \<^verbatim>\<open>re\<close> stands outside the repository and is a parameter of the model:
  \<open>re pattern subject\<close> is \<^verbatim>\<open>re.search(pattern, subject, flags=re.IGNORECASE)\<close>, which is
  \<^verbatim>\<open>None\<close> or a match. Of a match the source reads \<^verbatim>\<open>start()\<close>, \<^verbatim>\<open>groups()\<close> (one entry
  for each capturing group of the pattern, \<^verbatim>\<open>None\<close> for a group that took no part) and
  \<^verbatim>\<open>group(k)\<close>, the \<open>k\<close>-th entry of \<^verbatim>\<open>groups()\<close>, which raises \<^verbatim>\<open>IndexError\<close> when the
  pattern has fewer than \<open>k\<close> groups. The patterns are the literals of the source.
\<close>

record re_match =
  m_start :: nat
  m_groups :: "ustr option list"

type_synonym re_search = "ustr \<Rightarrow> ustr \<Rightarrow> re_match option"

definition m_group :: "re_match \<Rightarrow> nat \<Rightarrow> py_exc + ustr option" where
  "m_group m k =
     (if 1 \<le> k \<and> k \<le> length (m_groups m) then Inr (m_groups m ! (k - 1))
      else Inl IndexError)"

definition pat_digit :: ustr where \<comment> \<open>pattern \<^verbatim>\<open>\d\<close>\<close>
  "pat_digit = [92, 100]"

definition pat_year_for :: ustr where \<comment> \<open>pattern \<^verbatim>\<open>za\s+(\d{4})\s*(god|g\.)?\<close>\<close>
  "pat_year_for =
     [1079, 1072, 92, 115, 43, 40, 92, 100, 123, 52, 125, 41, 92, 115, 42, 40, 1075,
      1086, 1076, 124, 1075, 92, 46, 41, 63]"

definition pat_year_near :: ustr where \<comment> \<open>pattern \<^verbatim>\<open>(balans|otchet).{0,30}?(\d{4})\<close>\<close>
  "pat_year_near =
     [40, 1073, 1072, 1083, 1072, 1085, 1089, 124, 1086, 1090, 1095, 1077, 1090, 41,
      46, 123, 48, 44, 51, 48, 125, 63, 40, 92, 100, 123, 52, 125, 41]"

definition pat_inn :: ustr where \<comment> \<open>pattern \<^verbatim>\<open>INN[:\s]*([0-9]{10,12})\<close>\<close>
  "pat_inn =
     [1048, 1053, 1053, 91, 58, 92, 115, 93, 42, 40, 91, 48, 45, 57, 93, 123, 49, 48,
      44, 49, 50, 125, 41]"

definition pat_balance :: ustr where \<comment> \<open>pattern \<^verbatim>\<open>(balans|BALANS)\<close>\<close>
  "pat_balance =
     [40, 1073, 1072, 1083, 1072, 1085, 1089, 124, 1041, 1040, 1051, 1040, 1053, 1057,
      41]"

definition pat_non_current_assets :: ustr where \<comment> \<open>pattern \<^verbatim>\<open>Vneoborotn\w*\s+aktiv\w*\D*([0-9\-\(\)\s\.,]+)\<close>\<close>
  "pat_non_current_assets =
     [1042, 1085, 1077, 1086, 1073, 1086, 1088, 1086, 1090, 1085, 92, 119, 42, 92, 115,
      43, 1072, 1082, 1090, 1080, 1074, 92, 119, 42, 92, 68, 42, 40, 91, 48, 45, 57,
      92, 45, 92, 40, 92, 41, 92, 115, 92, 46, 44, 93, 43, 41]"

definition pat_inventory :: ustr where \<comment> \<open>pattern \<^verbatim>\<open>Zapas\w*\D*([0-9\-\(\)\s\.,]+)\<close>\<close>
  "pat_inventory =
     [1047, 1072, 1087, 1072, 1089, 92, 119, 42, 92, 68, 42, 40, 91, 48, 45, 57, 92,
      45, 92, 40, 92, 41, 92, 115, 92, 46, 44, 93, 43, 41]"

definition pat_cash :: ustr where \<comment> \<open>pattern \<^verbatim>\<open>Denezhn\w*\s*sr\w*\D*([0-9\-\(\)\s\.,]+)\<close>\<close>
  "pat_cash =
     [1044, 1077, 1085, 1077, 1078, 1085, 92, 119, 42, 92, 115, 42, 1089, 1088, 92,
      119, 42, 92, 68, 42, 40, 91, 48, 45, 57, 92, 45, 92, 40, 92, 41, 92, 115, 92, 46,
      44, 93, 43, 41]"

definition pat_financial_investments :: ustr where \<comment> \<open>pattern \<^verbatim>\<open>Finan\w*\s*vlozh\w*\D*([0-9\-\(\)\s\.,]+)\<close>\<close>
  "pat_financial_investments =
     [1060, 1080, 1085, 1072, 1085, 92, 119, 42, 92, 115, 42, 1074, 1083, 1086, 1078,
      92, 119, 42, 92, 68, 42, 40, 91, 48, 45, 57, 92, 45, 92, 40, 92, 41, 92, 115, 92,
      46, 44, 93, 43, 41]"

definition pat_intangible_assets :: ustr where \<comment> \<open>pattern \<^verbatim>\<open>Nemater\w*\s*aktiv\w*\D*([0-9\-\(\)\s\.,]+)\<close>\<close>
  "pat_intangible_assets =
     [1053, 1077, 1084, 1072, 1090, 1077, 1088, 92, 119, 42, 92, 115, 42, 1072, 1082,
      1090, 1080, 1074, 92, 119, 42, 92, 68, 42, 40, 91, 48, 45, 57, 92, 45, 92, 40,
      92, 41, 92, 115, 92, 46, 44, 93, 43, 41]"

definition pat_equity :: ustr where \<comment> \<open>pattern \<^verbatim>\<open>Kapital\w*.*rezerv\w*\D*([0-9\-\(\)\s\.,]+)\<close>\<close>
  "pat_equity =
     [1050, 1072, 1087, 1080, 1090, 1072, 1083, 92, 119, 42, 46, 42, 1088, 1077, 1079,
      1077, 1088, 1074, 92, 119, 42, 92, 68, 42, 40, 91, 48, 45, 57, 92, 45, 92, 40,
      92, 41, 92, 115, 92, 46, 44, 93, 43, 41]"

definition pat_long_term_debt :: ustr where \<comment> \<open>pattern \<^verbatim>\<open>Dolgosrochn\w*\s*zaem\w*\s*sredstv\D*([0-9\-\(\)\s\.,]+)\<close>\<close>
  "pat_long_term_debt =
     [1044, 1086, 1083, 1075, 1086, 1089, 1088, 1086, 1095, 1085, 92, 119, 42, 92, 115,
      42, 1079, 1072, 1077, 1084, 92, 119, 42, 92, 115, 42, 1089, 1088, 1077, 1076,
      1089, 1090, 1074, 92, 68, 42, 40, 91, 48, 45, 57, 92, 45, 92, 40, 92, 41, 92,
      115, 92, 46, 44, 93, 43, 41]"

definition pat_accounts_payable :: ustr where \<comment> \<open>pattern \<^verbatim>\<open>Kreditor\w*\s*zadolzh\w*\D*([0-9\-\(\)\s\.,]+)\<close>\<close>
  "pat_accounts_payable =
     [1050, 1088, 1077, 1076, 1080, 1090, 1086, 1088, 92, 119, 42, 92, 115, 42, 1079,
      1072, 1076, 1086, 1083, 1078, 92, 119, 42, 92, 68, 42, 40, 91, 48, 45, 57, 92,
      45, 92, 40, 92, 41, 92, 115, 92, 46, 44, 93, 43, 41]"

definition pat_aktiv :: ustr where \<comment> \<open>pattern \<^verbatim>\<open>aktiv\<close>\<close>
  "pat_aktiv = [1072, 1082, 1090, 1080, 1074]"

definition pat_total_active :: ustr where \<comment> \<open>pattern \<^verbatim>\<open>(itog\w*.*aktiv\w*|vsego.*aktiv\w*).{0,40}?([0-9\-\(\)\s\.,]+)\<close>\<close>
  "pat_total_active =
     [40, 1080, 1090, 1086, 1075, 92, 119, 42, 46, 42, 1072, 1082, 1090, 1080, 1074,
      92, 119, 42, 124, 1074, 1089, 1077, 1075, 1086, 46, 42, 1072, 1082, 1090, 1080,
      1074, 92, 119, 42, 41, 46, 123, 48, 44, 52, 48, 125, 63, 40, 91, 48, 45, 57, 92,
      45, 92, 40, 92, 41, 92, 115, 92, 46, 44, 93, 43, 41]"

definition pat_total_passive :: ustr where \<comment> \<open>pattern \<^verbatim>\<open>(itog\w*.*passiv\w*|vsego.*passiv\w*).{0,40}?([0-9\-\(\)\s\.,]+)\<close>\<close>
  "pat_total_passive =
     [40, 1080, 1090, 1086, 1075, 92, 119, 42, 46, 42, 1087, 1072, 1089, 1089, 1080,
      1074, 92, 119, 42, 124, 1074, 1089, 1077, 1075, 1086, 46, 42, 1087, 1072, 1089,
      1089, 1080, 1074, 92, 119, 42, 41, 46, 123, 48, 44, 52, 48, 125, 63, 40, 91, 48,
      45, 57, 92, 45, 92, 40, 92, 41, 92, 115, 92, 46, 44, 93, 43, 41]"

definition pat_revenue :: ustr where \<comment> \<open>pattern \<^verbatim>\<open>Vyruch\w*\D*([0-9\-\(\)\s\.,]+)\<close>\<close>
  "pat_revenue =
     [1042, 1099, 1088, 1091, 1095, 92, 119, 42, 92, 68, 42, 40, 91, 48, 45, 57, 92,
      45, 92, 40, 92, 41, 92, 115, 92, 46, 44, 93, 43, 41]"

definition pat_net_profit :: ustr where \<comment> \<open>pattern \<^verbatim>\<open>Chist\w*\s*prib\w*\D*([0-9\-\(\)\s\.,]+)\<close>\<close>
  "pat_net_profit =
     [1063, 1080, 1089, 1090, 92, 119, 42, 92, 115, 42, 1087, 1088, 1080, 1073, 92,
      119, 42, 92, 68, 42, 40, 91, 48, 45, 57, 92, 45, 92, 40, 92, 41, 92, 115, 92, 46,
      44, 93, 43, 41]"

definition pat_income_tax :: ustr where \<comment> \<open>pattern \<^verbatim>\<open>Nal(og)?\s*na\s*pribyl\D*([0-9\-\(\)\s\.,]+)\<close>\<close>
  "pat_income_tax =
     [1053, 1072, 1083, 40, 1086, 1075, 41, 63, 92, 115, 42, 1085, 1072, 92, 115, 42,
      1087, 1088, 1080, 1073, 1099, 1083, 1100, 92, 68, 42, 40, 91, 48, 45, 57, 92, 45,
      92, 40, 92, 41, 92, 115, 92, 46, 44, 93, 43, 41]"

definition pat_expenses :: ustr where \<comment> \<open>pattern \<^verbatim>\<open>Raskh\w*\D*([0-9\-\(\)\s\.,]+)\<close>\<close>
  "pat_expenses =
     [1056, 1072, 1089, 1093, 92, 119, 42, 92, 68, 42, 40, 91, 48, 45, 57, 92, 45, 92,
      40, 92, 41, 92, 115, 92, 46, 44, 93, 43, 41]"

definition lbl_expenses :: ustr where \<comment> \<open>label \<^verbatim>\<open>Raskhody\<close>\<close>
  "lbl_expenses = [1056, 1072, 1089, 1093, 1086, 1076, 1099]"

subsection \<open>parse\_accounting\_from\_text\<close>

text \<open>
  What the function returns, key by key: \<^verbatim>\<open>report_type\<close>, \<^verbatim>\<open>report_year\<close>, the tax
  number \<^verbatim>\<open>company_info["inn"]\<close>, the two sides of \<^verbatim>\<open>balance\<close> and
  \<^verbatim>\<open>financial_results\<close>, which maps a key to \<^verbatim>\<open>{"current": value}\<close>. A side is present
  when its total was matched or one of its items was; \<open>total_value\<close> is
  \<^verbatim>\<open>side.get("total_current")\<close> and \<open>detail_values\<close> is \<^verbatim>\<open>details\<close> (empty when the key is
  absent). \<^verbatim>\<open>structured_data\<close> holds \<^verbatim>\<open>balance\<close> and \<^verbatim>\<open>financial_results\<close> again. The
  company name, cut out of the text before the tax number by slicing and
  \<^verbatim>\<open>splitlines\<close>, is left out.
\<close>

record text_side =
  total_value :: "pynum option"
  detail_values :: "(ustr \<times> pynum option) list"

record text_result =
  text_report_type :: "ustr option"
  text_report_year :: "ustr option"
  text_inn :: "ustr option"
  text_active :: "text_side option"
  text_passive :: "text_side option"
  text_financial_results :: "(string \<times> pynum option) list"

definition empty_text_result :: text_result where
  "empty_text_result =
     \<lparr>text_report_type = None, text_report_year = None, text_inn = None,
      text_active = None, text_passive = None, text_financial_results = []\<rparr>"

text \<open>\<^verbatim>\<open>_clean_number(g)\<close> for a group \<open>g\<close>, which may be \<^verbatim>\<open>None\<close>.\<close>

definition clean_number_opt :: "ustr option \<Rightarrow> py_exc + pynum option" where
  "clean_number_opt g = (case g of None \<Rightarrow> Inr None | Some s \<Rightarrow> clean_number s)"

text \<open>
  \<^verbatim>\<open>
  year_match = re.search(r'... (\d{4}) ... (...)?', txt, flags=re.IGNORECASE)
  if not year_match:
      year_match = re.search(r'(...|...).{0,30}?(\d{4})', txt, flags=re.IGNORECASE)
  if year_match:
      res["report_year"] = year_match.group(1) if len(year_match.groups()) == 1
                           else year_match.group(2)
  \<close>
\<close>

definition find_year :: "re_search \<Rightarrow> ustr \<Rightarrow> py_exc + ustr option" where
  "find_year re txt =
     (let year_match = (case re pat_year_for txt of
                          None \<Rightarrow> re pat_year_near txt
                        | Some m \<Rightarrow> Some m)
      in case year_match of
           None \<Rightarrow> Inr None
         | Some m \<Rightarrow> if length (m_groups m) = 1 then m_group m 1 else m_group m 2)"

definition find_inn :: "re_search \<Rightarrow> ustr \<Rightarrow> py_exc + ustr option" where
  "find_inn re txt = (case re pat_inn txt of None \<Rightarrow> Inr None | Some m \<Rightarrow> m_group m 1)"

text \<open>
  The items of the balance block, in the order of the dictionary \<^verbatim>\<open>items\<close>, and the
  labels that the source lists as assets. An item goes to the assets when its label
  matches the pattern of the word for asset or is in that list.
\<close>

definition balance_items :: "(ustr \<times> ustr) list" where
  "balance_items =
     [(lbl_non_current_assets, pat_non_current_assets),
      (lbl_inventory, pat_inventory),
      (lbl_cash, pat_cash),
      (lbl_financial_investments, pat_financial_investments),
      (lbl_intangible_assets, pat_intangible_assets),
      (lbl_equity, pat_equity),
      (lbl_long_term_debt, pat_long_term_debt),
      (lbl_accounts_payable, pat_accounts_payable)]"

definition active_labels :: "ustr list" where
  "active_labels =
     [lbl_non_current_assets, lbl_cash, lbl_financial_investments, lbl_intangible_assets,
      lbl_inventory]"

fun scan_items ::
  "re_search \<Rightarrow> ustr \<Rightarrow> (ustr \<times> ustr) list \<Rightarrow>
   (ustr \<times> pynum option) list \<times> (ustr \<times> pynum option) list \<Rightarrow>
   py_exc + (ustr \<times> pynum option) list \<times> (ustr \<times> pynum option) list" where
  "scan_items re window [] acc = Inr acc"
| "scan_items re window ((label, pattern) # rest) acc =
     (case re pattern window of
        None \<Rightarrow> scan_items re window rest acc
      | Some m \<Rightarrow>
          and_then (m_group m 1) (\<lambda>g.
          and_then (clean_number_opt g) (\<lambda>val.
            if re pat_aktiv label \<noteq> None \<or> label \<in> set active_labels
            then scan_items re window rest (AList.update label val (fst acc), snd acc)
            else scan_items re window rest (fst acc, AList.update label val (snd acc)))))"

text \<open>A total: \<^verbatim>\<open>None\<close> when the pattern does not match, else the cleaned second group.\<close>

definition find_total :: "re_search \<Rightarrow> ustr \<Rightarrow> ustr \<Rightarrow> py_exc + pynum option option" where
  "find_total re pattern window =
     (case re pattern window of
        None \<Rightarrow> Inr None
      | Some m \<Rightarrow>
          and_then (m_group m 2) (\<lambda>g.
          and_then (clean_number_opt g) (\<lambda>val. Inr (Some val))))"

definition make_side ::
  "pynum option option \<Rightarrow> (ustr \<times> pynum option) list \<Rightarrow> text_side option" where
  "make_side matched dets =
     (if matched = None \<and> dets = [] then None
      else Some \<lparr>total_value = (case matched of None \<Rightarrow> None | Some v \<Rightarrow> v),
                 detail_values = dets\<rparr>)"

text \<open>
  The block of financial results:
  \<^verbatim>\<open>
  for key, patt in fin_patterns.items():
      m = re.search(patt, txt, flags=re.IGNORECASE)
      if m:
          grp = None
          if m.groups():
              for g in reversed(m.groups()):
                  if g and re.search(r'\d', str(g)):
                      grp = g
                      break
          if not grp:
              grp = m.group(1)
          res["financial_results"][key] = {"current": _clean_number(grp)}
  \<close>
\<close>

definition fin_patterns :: "(string \<times> ustr) list" where
  "fin_patterns =
     [(''revenue'', pat_revenue), (''net_profit'', pat_net_profit),
      (''income_tax'', pat_income_tax), (''expenses'', pat_expenses)]"

definition pick_group :: "re_search \<Rightarrow> re_match \<Rightarrow> py_exc + ustr option" where
  "pick_group re m =
     (case find (\<lambda>g. case g of None \<Rightarrow> False | Some s \<Rightarrow> s \<noteq> [] \<and> re pat_digit s \<noteq> None)
             (rev (m_groups m)) of
        Some g \<Rightarrow> Inr g
      | None \<Rightarrow> m_group m 1)"

fun scan_fin ::
  "re_search \<Rightarrow> ustr \<Rightarrow> (string \<times> ustr) list \<Rightarrow> (string \<times> pynum option) list \<Rightarrow>
   py_exc + (string \<times> pynum option) list" where
  "scan_fin re txt [] acc = Inr acc"
| "scan_fin re txt ((key, patt) # rest) acc =
     (case re patt txt of
        None \<Rightarrow> scan_fin re txt rest acc
      | Some m \<Rightarrow>
          and_then (pick_group re m) (\<lambda>grp.
          and_then (clean_number_opt grp) (\<lambda>val.
            scan_fin re txt rest (AList.update key val acc))))"

text \<open>
  The balance block: found by the word for balance, read in the window of 5000
  characters that starts there.
\<close>

definition balance_block ::
  "re_search \<Rightarrow> ustr \<Rightarrow> py_exc + ustr option \<times> text_side option \<times> text_side option" where
  "balance_block re txt =
     (case re pat_balance txt of
        None \<Rightarrow> Inr (None, None, None)
      | Some bal_match \<Rightarrow>
          (let window = take 5000 (drop (m_start bal_match) txt) in
           and_then (scan_items re window balance_items ([], [])) (\<lambda>dets.
           and_then (find_total re pat_total_active window) (\<lambda>total_active.
           and_then (find_total re pat_total_passive window) (\<lambda>total_passive.
             Inr (Some rt_balance,
                  make_side total_active (fst dets),
                  make_side total_passive (snd dets)))))))"

text \<open>
  The function has no \<^verbatim>\<open>try\<close>: an exception leaves it, which is the value \<open>Inl\<close>. A text
  that is empty or blank gives the empty result at once.
\<close>

definition parse_accounting_from_text :: "re_search \<Rightarrow> ustr \<Rightarrow> py_exc + text_result" where
  "parse_accounting_from_text re txt =
     (if txt = [] \<or> py_strip txt = [] then Inr empty_text_result
      else
        and_then (find_year re txt) (\<lambda>year.
        and_then (find_inn re txt) (\<lambda>inn.
        and_then (balance_block re txt) (\<lambda>block.
        and_then (scan_fin re txt fin_patterns []) (\<lambda>fin.
          Inr \<lparr>text_report_type = fst block, text_report_year = year, text_inn = inn,
               text_active = fst (snd block), text_passive = snd (snd block),
               text_financial_results = fin\<rparr>)))))"

subsection \<open>C7: the report year\<close>

text \<open>
  Both year patterns have two capturing groups, so \<^verbatim>\<open>len(year_match.groups())\<close> is 2 and
  the source always takes \<^verbatim>\<open>group(2)\<close>. For a match of the first pattern that is the
  optional word after the year, not the year.
\<close>

lemma find_year_second_group:
  assumes "re pat_year_for txt = Some m" and "m_groups m = [g1, g2]"
  shows "find_year re txt = Inr g2"
  using assms by (simp add: find_year_def m_group_def)

lemma find_year_fallback:
  assumes "re pat_year_for txt = None" and "re pat_year_near txt = Some m"
    and "m_groups m = [g1, g2]"
  shows "find_year re txt = Inr g2"
  using assms by (simp add: find_year_def m_group_def)

text \<open>
  An engine that answers as \<^verbatim>\<open>re.search\<close> does on the texts of the examples. On the
  text \<^verbatim>\<open>za 2020 god\<close> ("for the year 2020") the first year pattern matches at 0 with
  the groups \<^verbatim>\<open>2020\<close> and \<^verbatim>\<open>god\<close>, and no other pattern of the function matches. On the
  text \<^verbatim>\<open>Vyruchka 1 000 000\<close> ("revenue 1 000 000") the revenue pattern matches at 0
  with the group \<^verbatim>\<open>1 000 000\<close>, in which the digit pattern matches, and no other
  pattern of the function matches.
\<close>

definition text_for_2020 :: ustr where \<comment> \<open>\<^verbatim>\<open>za 2020 god\<close>\<close>
  "text_for_2020 = [1079, 1072, 32, 50, 48, 50, 48, 32, 1075, 1086, 1076]"

definition word_god :: ustr where \<comment> \<open>\<^verbatim>\<open>god\<close>\<close>
  "word_god = [1075, 1086, 1076]"

definition text_revenue :: ustr where \<comment> \<open>\<^verbatim>\<open>Vyruchka 1 000 000\<close>\<close>
  "text_revenue =
     [1042, 1099, 1088, 1091, 1095, 1082, 1072, 32, 49, 32, 48, 48, 48, 32, 48, 48, 48]"

definition sample_search :: re_search where
  "sample_search pattern subject =
     (if pattern = pat_year_for \<and> subject = text_for_2020
      then Some \<lparr>m_start = 0, m_groups = [Some (ascii ''2020''), Some word_god]\<rparr>
      else if pattern = pat_revenue \<and> subject = text_revenue
      then Some \<lparr>m_start = 0, m_groups = [Some (ascii ''1 000 000'')]\<rparr>
      else if pattern = pat_digit \<and> subject = ascii ''1 000 000''
      then Some \<lparr>m_start = 0, m_groups = []\<rparr>
      else None)"

lemmas pat_defs = pat_year_for_def pat_year_near_def pat_inn_def pat_balance_def
  pat_non_current_assets_def pat_inventory_def pat_cash_def pat_financial_investments_def
  pat_intangible_assets_def pat_equity_def pat_long_term_debt_def pat_accounts_payable_def
  pat_aktiv_def pat_total_active_def pat_total_passive_def pat_revenue_def
  pat_net_profit_def pat_income_tax_def pat_expenses_def pat_digit_def

lemmas heur_eval = parse_accounting_from_text_def find_year_def find_inn_def
  balance_block_def fin_patterns_def pick_group_def m_group_def and_then_def
  clean_number_opt_def sample_search_def text_for_2020_def text_revenue_def word_god_def
  pat_defs py_strip_def strip_chars_def is_space_def

text \<open>
  C7 on the code. The text \<^verbatim>\<open>za 2020 god\<close> holds the phrase with the year 2020, and
  \<open>parse_accounting_from_text\<close> sets \<^verbatim>\<open>report_year\<close> to the word \<^verbatim>\<open>god\<close> ("year"), not to
  the token \<^verbatim>\<open>2020\<close>.
\<close>

theorem report_year_is_second_group:
  "map_sum id text_report_year (parse_accounting_from_text sample_search text_for_2020) =
     Inr (Some word_god) \<and>
   Some word_god \<noteq> Some (ascii ''2020'')"
  by (simp add: heur_eval ascii_def)

section \<open>Files, libraries and the cascade\<close>

subsection \<open>What the libraries return for a file\<close>

text \<open>
  The libraries that read files stand outside the repository. A file is given by what
  each of them returns for it, an exception being the value \<open>Inl\<close>:
  \<^item> \<open>starts_with_pdf\<close>: whether the first bytes are \<^verbatim>\<open>%PDF\<close>
    (\<^verbatim>\<open>open(path, 'rb').read(10).startswith(b'%PDF')\<close>);
  \<^item> \<open>utf8_content\<close>: the file read as text in UTF-8;
  \<^item> \<open>cp1251_tree\<close>: the file read in windows-1251 and parsed by \<^verbatim>\<open>ET.fromstring\<close>;
  \<^item> \<open>parsed_tree\<close>: the root that \<^verbatim>\<open>ET.parse\<close> gives;
  \<^item> \<open>pdf_info\<close>: the number of pages and the encrypted flag, as the PDF library
    reports them;
  \<^item> \<open>plumber_pages\<close>: for each page, the text that pdfplumber extracts with
    tolerance 2, followed by the rows of the page's tables;
  \<^item> \<open>mupdf_pages\<close>: the page texts that PyMuPDF gave before it raised, if it did;
  \<^item> \<open>ocr_pages\<close>: the texts that pytesseract recognises on the page images;
  \<^item> \<open>page_texts\<close>: for each page, \<^verbatim>\<open>page.extract_text()\<close> of pdfplumber or
    \<^verbatim>\<open>get_text()\<close> of PyMuPDF, the empty string for a page without text;
  \<^item> \<open>ai_response\<close>: the text of the answer of the generative model.
  The module-level \<^verbatim>\<open>PDF_LIB\<close> and \<^verbatim>\<open>OCR_AVAILABLE\<close> are the settings.
\<close>

datatype pdf_library = Pdfplumber | Pymupdf

record settings =
  pdf_lib :: "pdf_library option"
  ocr_available :: bool

record document =
  starts_with_pdf :: "py_exc + bool"
  utf8_content :: "py_exc + ustr"
  cp1251_tree :: "py_exc + element"
  parsed_tree :: "py_exc + element"
  pdf_info :: "py_exc + nat \<times> bool"
  plumber_pages :: "py_exc + ustr list"
  mupdf_pages :: "ustr list"
  ocr_pages :: "py_exc + ustr list"
  page_texts :: "py_exc + ustr list"
  ai_response :: "py_exc + ustr"

text \<open>
  The result of an extractor that keeps a text: the common keys, \<^verbatim>\<open>text\<close> and
  \<^verbatim>\<open>parsing_error\<close>. The strategies that ran are returned beside the result, in the
  order in which they were invoked.
\<close>

record plain_result = "(ustr, multi_year) extraction" +
  extracted_text :: ustr
  parsing_error :: "py_exc option"

datatype parsed = Markup xml_result | Plain plain_result | Ai ai_result

datatype strategy =
  StructuredSchema | GenericMarkup | TextLayer pdf_library | OpticalRecognition
  | HeuristicPatterns | DelegatedAI

definition plain_failed :: "diagnostic \<Rightarrow> plain_result" where
  "plain_failed d =
     \<lparr>success = False, report_type = None, report_year = None, multi_year_data = None,
      error = Some d, extracted_text = [], parsing_error = None\<rparr>"

definition plain_text :: "ustr \<Rightarrow> plain_result" where
  "plain_text t =
     \<lparr>success = True, report_type = None, report_year = None, multi_year_data = None,
      error = None, extracted_text = t, parsing_error = None\<rparr>"

text \<open>\<^verbatim>\<open>sep.join(xs)\<close>\<close>

fun join :: "ustr \<Rightarrow> ustr list \<Rightarrow> ustr" where
  "join sep [] = []"
| "join sep [x] = x"
| "join sep (x # y # ys) = x @ sep @ join sep (y # ys)"

definition page_separator :: ustr where \<comment> \<open>separator \<^verbatim>\<open>\n\n=== NOVAYa STRANITsA ===\n\n\<close>\<close>
  "page_separator =
     [10, 10, 61, 61, 61, 32, 1053, 1054, 1042, 1040, 1071, 32, 1057, 1058, 1056, 1040,
      1053, 1048, 1062, 1040, 32, 61, 61, 61, 10, 10]"

definition msg_encrypted :: ustr where \<comment> \<open>message \<^verbatim>\<open>PDF zashchishchen parolem ili zashifrovan\<close>\<close>
  "msg_encrypted =
     [80, 68, 70, 32, 1079, 1072, 1097, 1080, 1097, 1077, 1085, 32, 1087, 1072, 1088,
      1086, 1083, 1077, 1084, 32, 1080, 1083, 1080, 32, 1079, 1072, 1096, 1080, 1092,
      1088, 1086, 1074, 1072, 1085]"

definition msg_no_pages :: ustr where \<comment> \<open>message \<^verbatim>\<open>PDF ne soderzhit stranits\<close>\<close>
  "msg_no_pages =
     [80, 68, 70, 32, 1085, 1077, 32, 1089, 1086, 1076, 1077, 1088, 1078, 1080, 1090,
      32, 1089, 1090, 1088, 1072, 1085, 1080, 1094]"

definition msg_ocr_failed :: ustr where \<comment> \<open>message \<^verbatim>\<open>OCR dostupen, no proizoshla oshibka: \<close>\<close>
  "msg_ocr_failed =
     [79, 67, 82, 32, 1076, 1086, 1089, 1090, 1091, 1087, 1077, 1085, 44, 32, 1085,
      1086, 32, 1087, 1088, 1086, 1080, 1079, 1086, 1096, 1083, 1072, 32, 1086, 1096,
      1080, 1073, 1082, 1072, 58, 32]"

definition msg_empty_text :: ustr where \<comment> \<open>message \<^verbatim>\<open>Pustoy tekst. Veroyatno PDF -- skan bez tekstovogo sloya. Ustanovite OCR: pip install pdf2image pytesseract\<close>\<close>
  "msg_empty_text =
     [1055, 1091, 1089, 1090, 1086, 1081, 32, 1090, 1077, 1082, 1089, 1090, 46, 32,
      1042, 1077, 1088, 1086, 1103, 1090, 1085, 1086, 32, 80, 68, 70, 32, 8212, 32,
      1089, 1082, 1072, 1085, 32, 1073, 1077, 1079, 32, 1090, 1077, 1082, 1089, 1090,
      1086, 1074, 1086, 1075, 1086, 32, 1089, 1083, 1086, 1103, 46, 32, 1059, 1089,
      1090, 1072, 1085, 1086, 1074, 1080, 1090, 1077, 32, 79, 67, 82, 58, 32, 112, 105,
      112, 32, 105, 110, 115, 116, 97, 108, 108, 32, 112, 100, 102, 50, 105, 109, 97,
      103, 101, 32, 112, 121, 116, 101, 115, 115, 101, 114, 97, 99, 116]"

definition msg_not_pdf_file :: ustr where \<comment> \<open>message \<^verbatim>\<open>Ne PDF fayl. Zagolovok: \<close>\<close>
  "msg_not_pdf_file =
     [1053, 1077, 32, 80, 68, 70, 32, 1092, 1072, 1081, 1083, 46, 32, 1047, 1072, 1075,
      1086, 1083, 1086, 1074, 1086, 1082, 58, 32]"

definition msg_read_error :: ustr where \<comment> \<open>message \<^verbatim>\<open>Oshibka chteniya fayla: \<close>\<close>
  "msg_read_error =
     [1054, 1096, 1080, 1073, 1082, 1072, 32, 1095, 1090, 1077, 1085, 1080, 1103, 32,
      1092, 1072, 1081, 1083, 1072, 58, 32]"

definition msg_not_pdf :: ustr where \<comment> \<open>message \<^verbatim>\<open>Ne PDF. Zagolovok: \<close>\<close>
  "msg_not_pdf =
     [1053, 1077, 32, 80, 68, 70, 46, 32, 1047, 1072, 1075, 1086, 1083, 1086, 1074,
      1086, 1082, 58, 32]"

definition msg_no_pdf_library :: ustr where \<comment> \<open>message \<^verbatim>\<open>Net biblioteki dlya PDF\<close>\<close>
  "msg_no_pdf_library =
     [1053, 1077, 1090, 32, 1073, 1080, 1073, 1083, 1080, 1086, 1090, 1077, 1082, 1080,
      32, 1076, 1083, 1103, 32, 80, 68, 70]"

subsection \<open>extract\_from\_xml\<close>

text \<open>
  \<^verbatim>\<open>
  accounting_result = parse_accounting_xml(xml_path)
  if accounting_result.get("success"):
      return accounting_result
  result = {"filename": ..., "success": False, "data": {}, "text": ""}
  try:
      tree = ET.parse(xml_path)
      root = tree.getroot()
      elements = []
      for elem in root.iter():
          if elem.text and elem.text.strip():
              tag = elem.tag.split('}')[-1] if '}' in elem.tag else elem.tag
              elements.append(f"{tag}: {elem.text.strip()}")
      result["text"] = "\n".join(elements)
      ...
      result["success"] = True
  except Exception as e:
      result["error"] = str(e)
  return result
  \<close>
\<close>

definition element_line :: "element \<Rightarrow> ustr list" where
  "element_line e =
     (case elem_text e of
        None \<Rightarrow> []
      | Some t \<Rightarrow>
          if t = [] \<or> py_strip t = [] then []
          else [(if 125 \<in> set (tag e) then last (split_char 125 (tag e)) else tag e)
                @ ascii '': '' @ py_strip t])"

definition generic_markup :: "py_exc + element \<Rightarrow> plain_result" where
  "generic_markup src =
     (case src of
        Inl e \<Rightarrow> plain_failed (ExcText e)
      | Inr tree \<Rightarrow> plain_text (join [10] (concat (map element_line (tree # descendants tree)))))"

definition extract_from_xml :: "document \<Rightarrow> strategy list \<times> parsed" where
  "extract_from_xml doc =
     (let accounting_result = parse_accounting_xml (cp1251_tree doc)
      in if success accounting_result then ([StructuredSchema], Markup accounting_result)
         else ([StructuredSchema, GenericMarkup], Plain (generic_markup (parsed_tree doc))))"

subsection \<open>extract\_from\_pdf\<close>

text \<open>
  The source defines \<^verbatim>\<open>extract_from_pdf\<close> twice at the top level of the module. The
  second definition replaces the first when the module is loaded, so that a call of
  \<^verbatim>\<open>extract_from_pdf\<close> runs the second; it is \<open>extract_from_pdf\<close> here, and the first is
  \<open>extract_from_pdf_first\<close>.

  A file that does not start with \<^verbatim>\<open>%PDF\<close> is handed to the markup path when its text
  holds \<^verbatim>\<open><?xml\<close> or starts, blanks apart, with \<^verbatim>\<open><\<close>.
\<close>

definition looks_like_markup :: "ustr \<Rightarrow> bool" where
  "looks_like_markup content \<longleftrightarrow>
     sublist (ascii ''<?xml'') content \<or> prefix (ascii ''<'') (py_strip content)"

text \<open>
  The second definition:
  \<^verbatim>\<open>
  try:
      with open(pdf_path, 'rb') as f:
          header = f.read(10)
          if not header.startswith(b'%PDF'):
              try:
                  with open(pdf_path, 'r', encoding='utf-8') as xf:
                      content = xf.read()
                      if '<?xml' in content or content.strip().startswith('<'):
                          return extract_from_xml(pdf_path)
              except:
                  pass
              result["error"] = f"... {header}"
              return result
      if PDF_LIB == "pdfplumber":
          with pdfplumber.open(pdf_path) as pdf:
              texts = []
              for page in pdf.pages:
                  text = page.extract_text()
                  if text:
                      texts.append(text)
              result["text"] = SEPARATOR.join(texts)
              result["success"] = True
      elif PDF_LIB == "pymupdf":
          doc = fitz.open(pdf_path)
          texts = []
          for i in range(len(doc)):
              texts.append(doc[i].get_text())
          doc.close()
          result["text"] = SEPARATOR.join(texts)
          result["success"] = True
      else:
          result["error"] = "..."
  except Exception as e:
      result["error"] = str(e)
  return result
  \<close>
\<close>

definition extract_from_pdf :: "settings \<Rightarrow> document \<Rightarrow> strategy list \<times> parsed" where
  "extract_from_pdf env doc =
     (case starts_with_pdf doc of
        Inl e \<Rightarrow> ([], Plain (plain_failed (ExcText e)))
      | Inr is_pdf \<Rightarrow>
          if \<not> is_pdf then
            (case utf8_content doc of
               Inl e \<Rightarrow> ([], Plain (plain_failed (MsgHeader msg_not_pdf)))
             | Inr content \<Rightarrow>
                 if looks_like_markup content then extract_from_xml doc
                 else ([], Plain (plain_failed (MsgHeader msg_not_pdf))))
          else
            (case pdf_lib env of
               None \<Rightarrow> ([], Plain (plain_failed (Msg msg_no_pdf_library)))
             | Some lib \<Rightarrow>
                 ([TextLayer lib],
                  Plain (case page_texts doc of
                           Inl e \<Rightarrow> plain_failed (ExcText e)
                         | Inr pages \<Rightarrow>
                             plain_text (join page_separator
                               (if lib = Pdfplumber then filter (\<lambda>t. t \<noteq> []) pages
                                else pages))))))"

subsection \<open>The first definition of extract\_from\_pdf\<close>

text \<open>
  The structural diagnostic, step 0.5 of the first definition: the message with which
  the function returns at once, if it does.
  \<^verbatim>\<open>
  pdf_info = {}
  try:
      if PDF_LIB == "pdfplumber":
          ... pdf_info["pages"] = len(pdf.pages)
          ... pdf_info["encrypted"] = pdf.metadata.get('Encrypted', False) ...
      elif PDF_LIB == "pymupdf":
          ... pdf_info["pages"] = len(doc); pdf_info["encrypted"] = doc.is_encrypted
      result["pdf_info"] = pdf_info
      if pdf_info.get("encrypted"):
          result["error"] = "..."
          return result
      if pdf_info.get("pages", 0) == 0:
          result["error"] = "..."
          return result
  except Exception as e:
      result["pdf_diagnostic_error"] = str(e)
  \<close>
\<close>

definition diagnose :: "settings \<Rightarrow> document \<Rightarrow> ustr option" where
  "diagnose env doc =
     (case pdf_lib env of
        None \<Rightarrow> Some msg_no_pages
      | Some lib \<Rightarrow>
          (case pdf_info doc of
             Inl e \<Rightarrow> None
           | Inr info \<Rightarrow>
               if snd info then Some msg_encrypted
               else if fst info = 0 then Some msg_no_pages
               else None))"

text \<open>
  The text layer, steps 1 and 2: the engine of the installed library, and the page texts
  it leaves in \<^verbatim>\<open>extracted_text\<close>. An exception of pdfplumber empties the list; PyMuPDF
  runs when the library is PyMuPDF and keeps the pages read before an exception.
\<close>

definition text_layer :: "settings \<Rightarrow> document \<Rightarrow> strategy list \<times> ustr list" where
  "text_layer env doc =
     (case pdf_lib env of
        None \<Rightarrow> ([], [])
      | Some Pdfplumber \<Rightarrow>
          ([TextLayer Pdfplumber], (case plumber_pages doc of Inl e \<Rightarrow> [] | Inr ps \<Rightarrow> ps))
      | Some Pymupdf \<Rightarrow> ([TextLayer Pymupdf], mupdf_pages doc))"

text \<open>
  Step 4 builds \<^verbatim>\<open>multi_year_data\<close> from what \<open>parse_accounting_from_text\<close> found, when
  it found a side of the balance or a financial result. A Python number is true when
  it is not zero; the float of a decimal literal is zero when the literal is at most
  half the least positive double, \<open>2 ^ - 1075\<close>, in absolute value.
  \<^verbatim>\<open>
  result["multi_year_data"] = {"years": [result.get("report_year", "N/A")],
                               "balance": {}, "financial_results": {}}
  ...
  if active.get("total_current"):
      result["multi_year_data"]["balance"][LABEL] = [active.get("total_current")]
  if active.get("details"):
      for key, val in active["details"].items():
          result["multi_year_data"]["balance"][key] = [val]
  ...
  if fin_res.get("revenue"):
      result["multi_year_data"]["financial_results"][LABEL] = [fin_res["revenue"].get("current")]
  \<close>
\<close>

definition truthy :: "pynum \<Rightarrow> bool" where
  "truthy v = (case v of PyInt i \<Rightarrow> i \<noteq> 0 | PyFloat q \<Rightarrow> 1 < \<bar>q\<bar> * 2 ^ 1075)"

definition num_cell :: "pynum option \<Rightarrow> cell" where
  "num_cell v = (case v of None \<Rightarrow> CNone | Some n \<Rightarrow> CNum n)"

definition side_lines :: "ustr \<Rightarrow> text_side option \<Rightarrow> (ustr \<times> cell list) list" where
  "side_lines label s =
     (case s of
        None \<Rightarrow> []
      | Some sd \<Rightarrow>
          (case total_value sd of
             None \<Rightarrow> []
           | Some v \<Rightarrow> if truthy v then [(label, [CNum v])] else []) @
          map (\<lambda>kv. (fst kv, [num_cell (snd kv)])) (detail_values sd))"

definition fin_line ::
  "ustr \<Rightarrow> string \<Rightarrow> (string \<times> pynum option) list \<Rightarrow> (ustr \<times> cell list) list" where
  "fin_line label k d = (case map_of d k of None \<Rightarrow> [] | Some v \<Rightarrow> [(label, [num_cell v])])"

definition or_none :: "ustr option \<Rightarrow> ustr option" where
  "or_none v = (case v of None \<Rightarrow> None | Some s \<Rightarrow> if s = [] then None else Some s)"

definition heuristic_table :: "text_result \<Rightarrow> multi_year option" where
  "heuristic_table p =
     (if text_active p \<noteq> None \<or> text_passive p \<noteq> None \<or> text_financial_results p \<noteq> []
      then Some
        \<lparr>years = [cell_of (or_none (text_report_year p))],
         my_balance = dict_of
           (side_lines lbl_aktiv_total (text_active p) @
            side_lines lbl_passiv_total (text_passive p)),
         my_financial_results = dict_of
           (fin_line lbl_revenue ''revenue'' (text_financial_results p) @
            fin_line lbl_net_profit ''net_profit'' (text_financial_results p) @
            fin_line lbl_expenses ''expenses'' (text_financial_results p) @
            fin_line lbl_income_tax ''income_tax'' (text_financial_results p))\<rparr>
      else None)"

definition with_heuristics :: "re_search \<Rightarrow> ustr \<Rightarrow> plain_result" where
  "with_heuristics re joined =
     (case parse_accounting_from_text re joined of
        Inl e \<Rightarrow> (plain_text joined)\<lparr>parsing_error := Some e\<rparr>
      | Inr p \<Rightarrow>
          (plain_text joined)
            \<lparr>report_type := or_none (text_report_type p),
             report_year := or_none (text_report_year p),
             multi_year_data := heuristic_table p\<rparr>)"

text \<open>
  Steps 3 and 4: the pages that are not blank are joined; an empty transcript goes to
  optical recognition when it is installed and ends the function with a diagnostic
  otherwise; the transcript is then read by the heuristic extractor.
\<close>

definition read_text :: "re_search \<Rightarrow> settings \<Rightarrow> document \<Rightarrow> strategy list \<times> parsed" where
  "read_text re env doc =
     (let layer = text_layer env doc;
          joined = join page_separator
            (filter (\<lambda>p. p \<noteq> [] \<and> py_strip p \<noteq> []) (snd layer))
      in if py_strip joined = [] then
           (if ocr_available env then
              (case ocr_pages doc of
                 Inl e \<Rightarrow>
                   (fst layer @ [OpticalRecognition],
                    Plain (plain_failed (MsgExc msg_ocr_failed e)))
               | Inr ocr_texts \<Rightarrow>
                   (fst layer @ [OpticalRecognition, HeuristicPatterns],
                    Plain (with_heuristics re (join page_separator ocr_texts))))
            else (fst layer, Plain (plain_failed (Msg msg_empty_text))))
         else (fst layer @ [HeuristicPatterns], Plain (with_heuristics re joined)))"

definition extract_from_pdf_first ::
  "re_search \<Rightarrow> settings \<Rightarrow> document \<Rightarrow> strategy list \<times> parsed" where
  "extract_from_pdf_first re env doc =
     (case starts_with_pdf doc of
        Inl e \<Rightarrow> ([], Plain (plain_failed (MsgExc msg_read_error e)))
      | Inr is_pdf \<Rightarrow>
          if \<not> is_pdf then
            (case utf8_content doc of
               Inl e \<Rightarrow> ([], Plain (plain_failed (MsgHeader msg_not_pdf_file)))
             | Inr content \<Rightarrow>
                 if looks_like_markup content
                 then ([StructuredSchema], Markup (parse_accounting_xml (cp1251_tree doc)))
                 else ([], Plain (plain_failed (MsgHeader msg_not_pdf_file))))
          else
            (case diagnose env doc of
               Some message \<Rightarrow> ([], Plain (plain_failed (Msg message)))
             | None \<Rightarrow> read_text re env doc))"

subsection \<open>download\_and\_parse\_boh: one downloaded file\<close>




section \<open>Properties of the produced records\<close>

subsection \<open>Example files\<close>





definition pdf_document :: "ustr list \<Rightarrow> document" where
  "pdf_document pages =
     \<lparr>starts_with_pdf = Inr True, utf8_content = Inl (OtherError []),
      cp1251_tree = Inl (OtherError []), parsed_tree = Inl (OtherError []),
      pdf_info = Inr (length pages, False), plumber_pages = Inr pages,
      mupdf_pages = pages, ocr_pages = Inr [],
      page_texts = Inr pages, ai_response = Inr plain_payload\<rparr>"

definition with_pdfplumber :: settings where
  "with_pdfplumber = \<lparr>pdf_lib = Some Pdfplumber, ocr_available = False\<rparr>"








subsection \<open>C1: the lengths of the value sequences\<close>









subsection \<open>C2: what the cells hold\<close>













subsection \<open>Facts about the dispatch\<close>




subsection \<open>C3: what the success flag says\<close>




















subsection \<open>C4: the order of the strategies\<close>



subsection \<open>C8: encrypted and empty PDF files\<close>

text \<open>
  The first definition of \<^verbatim>\<open>extract_from_pdf\<close> does what the claim says: when the
  diagnostic reports an encrypted file or a file without pages, the function returns at
  once, no engine having run, and the three diagnostics differ.
\<close>

lemma first_definition_returns_at_once:
  assumes "starts_with_pdf doc = Inr True" and "pdf_lib env = Some lib"
    and "pdf_info doc = Inr (n, encrypted)" and "encrypted \<or> n = 0"
  shows "extract_from_pdf_first re env doc =
     ([], Plain (plain_failed (Msg (if encrypted then msg_encrypted else msg_no_pages))))"
  using assms by (auto simp: extract_from_pdf_first_def diagnose_def)

lemma diagnostics_differ:
  "msg_encrypted \<noteq> msg_no_pages \<and> msg_encrypted \<noteq> msg_empty_text \<and>
   msg_no_pages \<noteq> msg_empty_text"
  by (simp add: msg_encrypted_def msg_no_pages_def msg_empty_text_def)

text \<open>
  The second definition, which is the one a call runs, has no diagnostic: for a PDF
  file it runs the engine of the installed library first.
\<close>

lemma second_definition_runs_engine:
  assumes "starts_with_pdf doc = Inr True" and "pdf_lib env = Some lib"
  shows "fst (extract_from_pdf env doc) = [TextLayer lib]"
  using assms by (simp add: extract_from_pdf_def)

text \<open>
  C8 on the code. For a PDF file without pages, read with pdfplumber,
  \<open>extract_from_pdf\<close> runs the text engine and returns \<^verbatim>\<open>success = true\<close> with an empty
  text and no diagnostic; the first definition returns at once, without an engine, the
  diagnostic for a file without pages.
\<close>

theorem zero_page_pdf_succeeds:
  "extract_from_pdf with_pdfplumber (pdf_document []) =
     ([TextLayer Pdfplumber], Plain (plain_text [])) \<and>
   success (plain_text []) \<and> error (plain_text []) = None \<and>
   extract_from_pdf_first re with_pdfplumber (pdf_document []) =
     ([], Plain (plain_failed (Msg msg_no_pages)))"
  by (simp add: extract_from_pdf_def extract_from_pdf_first_def diagnose_def
      with_pdfplumber_def pdf_document_def plain_text_def)

end
